theory Spec2Isabelle
  imports Main "HOL-Library.Char_ord" "HOL-Library.List_Lexorder" "HOL-Library.Word"
begin

section \<open>The ensemble image client\<close>

text \<open>
  A shallow embedding of \<^verbatim>\<open>src/clients/python/examples/ensemble_image_client.py\<close>:
  the two model parsers, the post-processing of a response, and the script body, which
  is modelled as a function from the parsed flags and the outside world (the client SDK
  and the file system) to what the run prints, which calls it makes and how it ends.

  Strings are lists of \<^typ>\<open>char\<close>; a character stands for a code point below 256.
  Python's unbounded integers are \<^typ>\<open>int\<close>, lengths are \<^typ>\<open>nat\<close>.
\<close>

subsection \<open>Exceptions\<close>

text \<open>
  A raised exception is a value: its class and the text \<^verbatim>\<open>str(e)\<close> gives.
  Every class below is a subclass of Python's \<^verbatim>\<open>Exception\<close>; the constructor
  \<open>Exception\<close> stands for an instance of the base class itself, which is what the
  script raises with \<^verbatim>\<open>raise Exception(...)\<close>.
\<close>

datatype exn_class =
  Exception | InferenceServerException | TypeError | KeyError | IndexError
  | ValueError | OSError

datatype exn = Raised exn_class string

fun class_of :: "exn \<Rightarrow> exn_class" where
  "class_of (Raised c m) = c"

fun str_exn :: "exn \<Rightarrow> string" where
  "str_exn (Raised c m) = m"

text \<open>Sequencing of two steps that may raise: the second runs only if the first returned.\<close>

definition and_then :: "exn + 'a \<Rightarrow> ('a \<Rightarrow> exn + 'b) \<Rightarrow> exn + 'b" where
  "and_then r f = (case r of Inl e \<Rightarrow> Inl e | Inr v \<Rightarrow> f v)"

subsection \<open>Formatting integers\<close>

text \<open>\<^verbatim>\<open>"{}".format(n)\<close> for an integer: its decimal digits, with a minus sign if negative.\<close>

definition digit_char :: "nat \<Rightarrow> char" where
  "digit_char d = ''0123456789'' ! d"

fun str_nat :: "nat \<Rightarrow> string" where
  "str_nat n = (if n < 10 then [digit_char n] else str_nat (n div 10) @ [digit_char (n mod 10)])"

declare str_nat.simps [simp del]

definition str_int :: "int \<Rightarrow> string" where
  "str_int i = (if i < 0 then CHR ''-'' # str_nat (nat (- i)) else str_nat (nat i))"

subsection \<open>Message-shaped metadata (gRPC)\<close>

text \<open>
  The gRPC client returns protocol-buffer messages: every attribute exists, a repeated
  field is a list, a string field is a string, \<^verbatim>\<open>max_batch_size\<close> is an integer.
\<close>

record tensor_metadata =
  name :: string
  tensor_datatype :: string
  shape :: "int list"

record model_metadata =
  inputs :: "tensor_metadata list"
  outputs :: "tensor_metadata list"

record model_tensor =
  tensor_name :: string
  dims :: "int list"

text \<open>
  The fields \<^verbatim>\<open>input\<close> and \<^verbatim>\<open>output\<close> of the configuration message are
  \<open>config_input\<close> and \<open>config_output\<close> here.
\<close>

record model_config =
  config_input :: "model_tensor list"
  config_output :: "model_tensor list"
  max_batch_size :: int

record model_config_response =
  config :: model_config

definition parse_model_grpc :: "model_metadata \<Rightarrow> model_config \<Rightarrow> exn + (string \<times> string \<times> int)" where
  "parse_model_grpc model_metadata model_config =
     (if length (inputs model_metadata) \<noteq> 1 then
        Inl (Raised Exception (''expecting 1 input, got '' @ str_nat (length (inputs model_metadata))))
      else if length (outputs model_metadata) \<noteq> 1 then
        Inl (Raised Exception (''expecting 1 output, got '' @ str_nat (length (outputs model_metadata))))
      else if length (config_input model_config) \<noteq> 1 then
        Inl (Raised Exception
          (''expecting 1 input in model configuration, got '' @ str_nat (length (config_input model_config))))
      else
        (let input_metadata = inputs model_metadata ! 0;
             output_metadata = outputs model_metadata ! 0
         in Inr (name input_metadata, name output_metadata, max_batch_size model_config)))"

subsection \<open>Dictionary-shaped metadata (HTTP)\<close>

text \<open>
  The HTTP client returns the decoded JSON document: dictionaries, lists, strings and
  integers, with nothing checked about their shape. Subscripting and \<^verbatim>\<open>len\<close> are
  therefore the dynamic operations of Python, which raise on the wrong kind of value.
  A dictionary is an association list; the first entry for a key is the one looked up.
\<close>

datatype json =
  JNull | JInt int | JStr string | JList "json list" | JDict "(string \<times> json) list"

text \<open>\<^verbatim>\<open>len(v)\<close>\<close>

fun py_len :: "json \<Rightarrow> exn + nat" where
  "py_len (JList xs) = Inr (length xs)"
| "py_len (JStr s) = Inr (length s)"
| "py_len (JDict d) = Inr (length (remdups (map fst d)))"
| "py_len (JInt i) = Inl (Raised TypeError ''object of type 'int' has no len()'')"
| "py_len JNull = Inl (Raised TypeError ''object of type 'NoneType' has no len()'')"

text \<open>\<^verbatim>\<open>v[key]\<close> for a string key\<close>

fun py_getitem :: "json \<Rightarrow> string \<Rightarrow> exn + json" where
  "py_getitem (JDict d) k =
     (case map_of d k of None \<Rightarrow> Inl (Raised KeyError k) | Some v \<Rightarrow> Inr v)"
| "py_getitem (JList xs) k =
     Inl (Raised TypeError ''list indices must be integers or slices, not str'')"
| "py_getitem (JStr s) k = Inl (Raised TypeError ''string indices must be integers'')"
| "py_getitem (JInt i) k = Inl (Raised TypeError ''object is not subscriptable'')"
| "py_getitem JNull k = Inl (Raised TypeError ''object is not subscriptable'')"

text \<open>\<^verbatim>\<open>v[0]\<close>\<close>

fun py_getitem0 :: "json \<Rightarrow> exn + json" where
  "py_getitem0 (JList xs) =
     (case xs of [] \<Rightarrow> Inl (Raised IndexError ''list index out of range'') | x # _ \<Rightarrow> Inr x)"
| "py_getitem0 (JStr s) =
     (case s of [] \<Rightarrow> Inl (Raised IndexError ''string index out of range'') | c # _ \<Rightarrow> Inr (JStr [c]))"
| "py_getitem0 (JDict d) = Inl (Raised KeyError ''0'')"
| "py_getitem0 (JInt i) = Inl (Raised TypeError ''object is not subscriptable'')"
| "py_getitem0 JNull = Inl (Raised TypeError ''object is not subscriptable'')"

definition parse_model_http :: "json \<Rightarrow> json \<Rightarrow> exn + (json \<times> json \<times> json)" where
  "parse_model_http model_metadata model_config =
     and_then (py_getitem model_metadata ''inputs'') (\<lambda>ins.
     and_then (py_len ins) (\<lambda>n_in.
       if n_in \<noteq> 1 then Inl (Raised Exception (''expecting 1 input, got '' @ str_nat n_in))
       else
     and_then (py_getitem model_metadata ''outputs'') (\<lambda>outs.
     and_then (py_len outs) (\<lambda>n_out.
       if n_out \<noteq> 1 then Inl (Raised Exception (''expecting 1 output, got '' @ str_nat n_out))
       else
     and_then (py_getitem model_config ''input'') (\<lambda>cfg_in.
     and_then (py_len cfg_in) (\<lambda>n_cfg.
       if n_cfg \<noteq> 1 then
         Inl (Raised Exception (''expecting 1 input in model configuration, got '' @ str_nat n_cfg))
       else
     and_then (py_getitem0 ins) (\<lambda>input_metadata.
     and_then (py_getitem0 outs) (\<lambda>output_metadata.
     and_then (py_getitem input_metadata ''name'') (\<lambda>input_name.
     and_then (py_getitem output_metadata ''name'') (\<lambda>output_name.
     and_then (py_getitem model_config ''max_batch_size'') (\<lambda>batch_size.
       Inr (input_name, output_name, batch_size))))))))))))"

text \<open>
  The dictionary that carries the same values as a message: the JSON rendering of the
  metadata and configuration messages, field by field under the field's name. It is the
  link between the two parsers, not part of the script.
\<close>

definition dict_of_tensor_metadata :: "tensor_metadata \<Rightarrow> json" where
  "dict_of_tensor_metadata t =
     JDict [(''name'', JStr (name t)), (''datatype'', JStr (tensor_datatype t)),
            (''shape'', JList (map JInt (shape t)))]"

definition dict_of_model_metadata :: "model_metadata \<Rightarrow> json" where
  "dict_of_model_metadata m =
     JDict [(''inputs'', JList (map dict_of_tensor_metadata (inputs m))),
            (''outputs'', JList (map dict_of_tensor_metadata (outputs m)))]"

definition dict_of_model_tensor :: "model_tensor \<Rightarrow> json" where
  "dict_of_model_tensor t =
     JDict [(''name'', JStr (tensor_name t)), (''dims'', JList (map JInt (dims t)))]"

definition dict_of_model_config :: "model_config \<Rightarrow> json" where
  "dict_of_model_config c =
     JDict [(''input'', JList (map dict_of_model_tensor (config_input c))),
            (''output'', JList (map dict_of_model_tensor (config_output c))),
            (''max_batch_size'', JInt (max_batch_size c))]"

text \<open>The parsed triple of the gRPC path as Python values.\<close>

definition triple_values :: "string \<times> string \<times> int \<Rightarrow> json \<times> json \<times> json" where
  "triple_values t = (case t of (i, out, b) \<Rightarrow> (JStr i, JStr out, JInt b))"

subsection \<open>Flags\<close>

text \<open>
  The result of \<^verbatim>\<open>parser.parse_args()\<close>. The positional \<^verbatim>\<open>image_filename\<close> is
  \<open>None\<close> when the command line has none.
\<close>

record flags =
  verbose :: bool
  classes :: int
  url :: string
  protocol :: string
  image_filename :: "string option"

text \<open>
  The five \<^verbatim>\<open>add_argument\<close> declarations, as data. A declaration whose names do
  not start with \<^verbatim>\<open>-\<close> is positional; argparse lets the command line omit a
  positional declared with \<^verbatim>\<open>nargs='?'\<close> (or \<^verbatim>\<open>'*'\<close>) and an option that is
  not required, and then stores the declared default.
\<close>

datatype arg_value = ArgNone | ArgBool bool | ArgInt int | ArgStr string

datatype arg_type = TypeInt | TypeStr

datatype arg_action = Store | StoreTrue

record argument =
  arg_names :: "string list"
  arg_action :: arg_action
  arg_type :: "arg_type option"
  arg_required :: bool
  arg_nargs :: "string option"
  arg_default :: arg_value

definition verbose_argument :: argument where
  "verbose_argument =
     \<lparr>arg_names = [''-v'', ''--verbose''], arg_action = StoreTrue, arg_type = None,
      arg_required = False, arg_nargs = None, arg_default = ArgBool False\<rparr>"

definition classes_argument :: argument where
  "classes_argument =
     \<lparr>arg_names = [''-c'', ''--classes''], arg_action = Store, arg_type = Some TypeInt,
      arg_required = False, arg_nargs = None, arg_default = ArgInt 1\<rparr>"

definition url_argument :: argument where
  "url_argument =
     \<lparr>arg_names = [''-u'', ''--url''], arg_action = Store, arg_type = Some TypeStr,
      arg_required = False, arg_nargs = None, arg_default = ArgStr ''localhost:8000''\<rparr>"

definition protocol_argument :: argument where
  "protocol_argument =
     \<lparr>arg_names = [''-i'', ''--protocol''], arg_action = Store, arg_type = Some TypeStr,
      arg_required = False, arg_nargs = None, arg_default = ArgStr ''HTTP''\<rparr>"




subsection \<open>Protocol selection\<close>

text \<open>
  \<^verbatim>\<open>str.lower()\<close> on code points below 256: the letters A to Z and the Latin-1
  capitals (192 to 222, but not the multiplication sign 215) move up by 32, everything
  else stays.
\<close>

definition lower_char :: "char \<Rightarrow> char" where
  "lower_char c =
     (let n = (of_char c :: nat)
      in if (65 \<le> n \<and> n \<le> 90) \<or> (192 \<le> n \<and> n \<le> 222 \<and> n \<noteq> 215)
         then char_of (n + 32) else c)"

definition lower :: "string \<Rightarrow> string" where
  "lower s = map lower_char s"

datatype transport = GRPC | HTTP

text \<open>
  The script tests \<^verbatim>\<open>FLAGS.protocol.lower() == "grpc"\<close> at each of its four
  protocol-dependent steps; the flag never changes, so the four tests agree and the
  model makes the choice once.
\<close>

definition select_transport :: "string \<Rightarrow> transport" where
  "select_transport p = (if lower p = ''grpc'' then GRPC else HTTP)"

subsection \<open>Tensors and the client SDK\<close>

type_synonym byte = "8 word"

text \<open>
  \<^verbatim>\<open>InferInput(name, shape, "BYTES")\<close> after \<^verbatim>\<open>set_data_from_numpy\<close>, and
  \<^verbatim>\<open>InferRequestedOutput(name, class_count=...)\<close>. The \<open>binary_data\<close> keyword exists
  only in the HTTP client, so it is \<open>None\<close> under gRPC. The data of an input is the
  stacked array, one element per image: the list of the elements' values.
\<close>

record infer_input =
  ii_name :: json
  ii_shape :: "nat list"
  ii_datatype :: string
  ii_data :: "byte list list"
  ii_binary_data :: "bool option"

record requested_output =
  ro_name :: json
  ro_binary_data :: "bool option"
  ro_class_count :: int

text \<open>
  An output array of a classification: one row per image, one element per requested
  class. The element type is what \<^verbatim>\<open>output_array.dtype.type\<close> is compared with.
\<close>

datatype np_dtype = np_bytes | np_str | np_object

datatype element = Bytes "byte list" | Str string

record ndarray =
  dtype :: np_dtype
  rows :: "element list list"

text \<open>\<^verbatim>\<open>results.as_numpy(name)\<close> is \<open>None\<close> when the response has no output of that name.\<close>

record infer_result =
  as_numpy :: "json \<Rightarrow> ndarray option"

text \<open>
  \<^verbatim>\<open>triton_client.infer(model_name, inputs, outputs=outputs)\<close>: the result, or the
  exception raised.
\<close>

type_synonym infer_fun =
  "string \<Rightarrow> infer_input list \<Rightarrow> requested_output list \<Rightarrow> exn + infer_result"

record ('m, 'c) client =
  get_model_metadata :: "string \<Rightarrow> exn + 'm"
  get_model_config :: "string \<Rightarrow> exn + 'c"
  infer :: infer_fun

text \<open>
  The outside world of one run: the two client constructors (called with the URL and
  the verbosity) and the file system.
\<close>

record world =
  grpc_client :: "string \<Rightarrow> bool \<Rightarrow> exn + (model_metadata, model_config_response) client"
  http_client :: "string \<Rightarrow> bool \<Rightarrow> exn + (json, json) client"
  isdir :: "string \<Rightarrow> bool"
  listdir :: "string \<Rightarrow> exn + string list"
  isfile :: "string \<Rightarrow> bool"
  read_file :: "string \<Rightarrow> exn + byte list"

subsection \<open>Post-processing\<close>

text \<open>\<^verbatim>\<open>s.split(sep)\<close> for a one-character separator: never empty, one more piece than separators.\<close>

fun split :: "char \<Rightarrow> string \<Rightarrow> string list" where
  "split sep [] = [[]]"
| "split sep (c # cs) =
     (if c = sep then [] # split sep cs
      else (c # hd (split sep cs)) # tl (split sep cs))"

text \<open>\<^verbatim>\<open>chr(x)\<close> for a byte.\<close>

definition chr :: "byte \<Rightarrow> char" where
  "chr x = char_of (unat x)"

text \<open>
  The pieces \<open>cls\<close> of one result. Iterating a bytes object yields its integers;
  iterating a string yields strings, on which \<^verbatim>\<open>chr\<close> raises; \<^verbatim>\<open>split(':')\<close> with
  a string separator raises on a bytes object.
\<close>

definition class_fields :: "np_dtype \<Rightarrow> element \<Rightarrow> exn + string list" where
  "class_fields dt result =
     (if dt = np_bytes then
        (case result of
           Bytes bs \<Rightarrow> Inr (split CHR '':'' (map chr bs))
         | Str s \<Rightarrow>
             (if s = [] then Inr (split CHR '':'' [])
              else Inl (Raised TypeError ''an integer is required (got type str)'')))
      else
        (case result of
           Str s \<Rightarrow> Inr (split CHR '':'' s)
         | Bytes bs \<Rightarrow> Inl (Raised TypeError ''a bytes-like object is required, not str'')))"

text \<open>\<^verbatim>\<open>"    {} ({}) = {}".format(cls[0], cls[1], cls[2])\<close>\<close>

definition format_class :: "string list \<Rightarrow> exn + string" where
  "format_class cls =
     (if length cls < 3 then Inl (Raised IndexError ''list index out of range'')
      else Inr (''    '' @ cls ! 0 @ '' ('' @ cls ! 1 @ '') = '' @ cls ! 2))"

text \<open>
  The inner loop over one image's results and the outer loop over the images. Each
  returns the lines printed and, if an iteration raised, the exception that ended it.
\<close>

fun print_results :: "np_dtype \<Rightarrow> element list \<Rightarrow> string list \<times> (exn + unit)" where
  "print_results dt [] = ([], Inr ())"
| "print_results dt (result # rest) =
     (case and_then (class_fields dt result) format_class of
        Inl e \<Rightarrow> ([], Inl e)
      | Inr line \<Rightarrow> (case print_results dt rest of (lines, r) \<Rightarrow> (line # lines, r)))"

fun print_images :: "np_dtype \<Rightarrow> element list list \<Rightarrow> string list \<times> (exn + unit)" where
  "print_images dt [] = ([], Inr ())"
| "print_images dt (results # rest) =
     (case print_results dt results of
        (lines, Inl e) \<Rightarrow> (lines, Inl e)
      | (lines, Inr u) \<Rightarrow> (case print_images dt rest of (later, r) \<Rightarrow> (lines @ later, r)))"

definition postprocess ::
    "infer_result \<Rightarrow> json \<Rightarrow> string list \<Rightarrow> int \<Rightarrow> string list \<times> (exn + unit)" where
  "postprocess results output_name filenames batch_size =
     (case as_numpy results output_name of
        None \<Rightarrow> ([], Inl (Raised TypeError ''object of type NoneType has no len()''))
      | Some output_array \<Rightarrow>
          (if int (length (rows output_array)) \<noteq> batch_size then
             ([], Inl (Raised Exception
                (''expected '' @ str_int batch_size @ '' results, got ''
                   @ str_nat (length (rows output_array)))))
           else print_images (dtype output_array) (rows output_array)))"

subsection \<open>The script\<close>

text \<open>
  What a run leaves behind: the lines it printed to standard output, the calls it made
  to the outside world in order, and how it ended: by \<^verbatim>\<open>sys.exit(n)\<close> or by
  running off the end of the script (\<open>Exit 0\<close>), or with an exception nothing caught.
\<close>

datatype event =
  CreateClient transport string bool
  | GetModelMetadata string
  | GetModelConfig string
  | OpenFile string
  | Infer string "infer_input list" "requested_output list"

datatype outcome = Exit int | Uncaught exn

record run =
  stdout :: "string list"
  calls :: "event list"
  outcome :: outcome


definition model_name :: string where
  "model_name = ''preprocess_resnet50_ensemble''"

text \<open>\<^verbatim>\<open>os.path.join(a, b)\<close> on a POSIX system.\<close>

definition join :: "string \<Rightarrow> string \<Rightarrow> string" where
  "join a b =
     (if take 1 b = ''/'' then b
      else if a = [] \<or> last a = CHR ''/'' then a @ b
      else a @ ''/'' @ b)"

text \<open>What \<open>join\<close> puts in front of a directory entry.\<close>

definition dir_prefix :: "string \<Rightarrow> string" where
  "dir_prefix d = (if d = [] \<or> last d = CHR ''/'' then d else d @ ''/'')"

text \<open>
  Lines 183 to 195: the candidate files, sorted. \<^verbatim>\<open>os.path.isdir(None)\<close> raises
  a \<open>TypeError\<close>.
\<close>

definition list_filenames :: "world \<Rightarrow> string option \<Rightarrow> exn + string list" where
  "list_filenames w image_path =
     (case image_path of
        None \<Rightarrow>
          Inl (Raised TypeError
            ''stat: path should be string, bytes, os.PathLike or integer, not NoneType'')
      | Some path \<Rightarrow>
          and_then
            (if isdir w path then
               and_then (listdir w path) (\<lambda>names.
                 Inr [join path f. f \<leftarrow> names, isfile w (join path f)])
             else Inr [path])
            (\<lambda>filenames. Inr (sort filenames)))"

definition truncation_warning :: "int \<Rightarrow> string" where
  "truncation_warning n =
     ''The number of images exceeds maximum batch size,only the first '' @ str_int n
       @ '' images, sorted by name alphabetically, will be processed''"

text \<open>
  Lines 198 to 203: the batch size and what is printed. The comparison of a length with
  anything but an integer raises.
\<close>

definition choose_batch_size :: "nat \<Rightarrow> json \<Rightarrow> exn + (int \<times> string list)" where
  "choose_batch_size n batch_size =
     (case batch_size of
        JInt m \<Rightarrow> Inr (if int n \<le> m then (int n, []) else (m, [truncation_warning m]))
      | _ \<Rightarrow> Inl (Raised TypeError ''<= not supported between instances of int and this type''))"

text \<open>\<^verbatim>\<open>range(batch_size)\<close>: empty when the size is not positive.\<close>

definition py_range :: "int \<Rightarrow> nat list" where
  "py_range n = [0..<nat n]"

text \<open>
  \<^verbatim>\<open>np.array([blob], dtype=bytes)\<close>: a one-element array of fixed-width byte strings.
  NumPy pads an element to the width with NUL bytes and drops every trailing NUL byte
  when the element is read, so the value the array holds, and the value stacking and
  \<^verbatim>\<open>set_data_from_numpy\<close> later see, is the blob without its trailing NUL bytes.
\<close>

definition np_array :: "byte list \<Rightarrow> byte list" where
  "np_array blob = rev (dropWhile (\<lambda>b. b = 0) (rev blob))"

text \<open>
  Lines 207 to 210: the loop that opens and reads \<^verbatim>\<open>filenames[idx]\<close> and appends
  the array built from what was read.
\<close>

fun read_images :: "world \<Rightarrow> string list \<Rightarrow> nat list \<Rightarrow> event list \<times> (exn + byte list list)" where
  "read_images w filenames [] = ([], Inr [])"
| "read_images w filenames (idx # rest) =
     (if idx < length filenames then
        (case read_file w (filenames ! idx) of
           Inl e \<Rightarrow> ([OpenFile (filenames ! idx)], Inl e)
         | Inr blob \<Rightarrow>
             (case read_images w filenames rest of
                (opened, r) \<Rightarrow>
                  (OpenFile (filenames ! idx) # opened, map_sum id ((#) (np_array blob)) r)))
      else ([], Inl (Raised IndexError ''list index out of range'')))"

text \<open>Lines 213 to 217: the loop that collects the names and the data sent.\<close>

fun repeat_images ::
    "string list \<Rightarrow> byte list list \<Rightarrow> nat list \<Rightarrow> exn + (string list \<times> byte list list)" where
  "repeat_images filenames image_data [] = Inr ([], [])"
| "repeat_images filenames image_data (idx # rest) =
     (if idx < length filenames \<and> idx < length image_data then
        and_then (repeat_images filenames image_data rest) (\<lambda>(input_filenames, repeated_image_data).
          Inr (filenames ! idx # input_filenames, image_data ! idx # repeated_image_data))
      else Inl (Raised IndexError ''list index out of range''))"

text \<open>\<^verbatim>\<open>np.stack(arrays, axis=0)\<close> of equally shaped arrays: it raises on an empty list.\<close>

definition np_stack :: "byte list list \<Rightarrow> exn + byte list list" where
  "np_stack arrays =
     (if arrays = [] then Inl (Raised ValueError ''need at least one array to stack'')
      else Inr arrays)"

text \<open>Lines 222 to 243: the one input and the one requested output.\<close>

definition make_inputs :: "transport \<Rightarrow> json \<Rightarrow> byte list list \<Rightarrow> infer_input list" where
  "make_inputs t input_name batched_image_data =
     [\<lparr>ii_name = input_name, ii_shape = [length batched_image_data, 1],
       ii_datatype = ''BYTES'', ii_data = batched_image_data,
       ii_binary_data = (if t = GRPC then None else Some True)\<rparr>]"

definition make_outputs :: "transport \<Rightarrow> json \<Rightarrow> int \<Rightarrow> requested_output list" where
  "make_outputs t output_name n =
     [\<lparr>ro_name = output_name, ro_binary_data = (if t = GRPC then None else Some True),
       ro_class_count = n\<rparr>]"

text \<open>Lines 205 to 219: both loops and the stacking, with the files opened on the way.\<close>

definition assemble ::
    "world \<Rightarrow> string list \<Rightarrow> int \<Rightarrow> event list \<times> (exn + (string list \<times> byte list list))" where
  "assemble w filenames batch_size =
     (case read_images w filenames (py_range batch_size) of
        (opened, Inl e) \<Rightarrow> (opened, Inl e)
      | (opened, Inr image_data) \<Rightarrow>
          (opened,
           and_then (repeat_images filenames image_data (py_range batch_size))
             (\<lambda>(input_filenames, repeated_image_data).
                and_then (np_stack repeated_image_data) (\<lambda>batched_image_data.
                  Inr (input_filenames, batched_image_data)))))"

text \<open>
  Lines 183 to 250, given what model parsing returned and the client's \<^verbatim>\<open>infer\<close>.
  The variable \<^verbatim>\<open>batch_size\<close> is reassigned on line 199; its later value is
  \<open>batch_size'\<close>.
\<close>

definition classify ::
    "transport \<Rightarrow> infer_fun
      \<Rightarrow> flags \<Rightarrow> world \<Rightarrow> json \<Rightarrow> json \<Rightarrow> json \<Rightarrow> run" where
  "classify t infer_call fl w input_name output_name batch_size =
     (case list_filenames w (image_filename fl) of
        Inl e \<Rightarrow> \<lparr>stdout = [], calls = [], outcome = Uncaught e\<rparr>
      | Inr filenames \<Rightarrow>
     (case choose_batch_size (length filenames) batch_size of
        Inl e \<Rightarrow> \<lparr>stdout = [], calls = [], outcome = Uncaught e\<rparr>
      | Inr (batch_size', warned) \<Rightarrow>
     (case assemble w filenames batch_size' of
        (opened, Inl e) \<Rightarrow> \<lparr>stdout = warned, calls = opened, outcome = Uncaught e\<rparr>
      | (opened, Inr (input_filenames, batched_image_data)) \<Rightarrow>
     (let request =
            Infer model_name (make_inputs t input_name batched_image_data)
              (make_outputs t output_name (classes fl))
      in case infer_call model_name (make_inputs t input_name batched_image_data)
                (make_outputs t output_name (classes fl)) of
           Inl e \<Rightarrow> \<lparr>stdout = warned, calls = opened @ [request], outcome = Uncaught e\<rparr>
         | Inr result \<Rightarrow>
             (case postprocess result output_name input_filenames batch_size' of
                (lines, Inl e) \<Rightarrow>
                  \<lparr>stdout = warned @ lines, calls = opened @ [request], outcome = Uncaught e\<rparr>
              | (lines, Inr u) \<Rightarrow>
                  \<lparr>stdout = warned @ lines @ [''PASS''], calls = opened @ [request],
                   outcome = Exit 0\<rparr>)))))"

text \<open>The three calls a run has made once it holds the metadata and the configuration.\<close>

definition setup_calls :: "transport \<Rightarrow> flags \<Rightarrow> event list" where
  "setup_calls t fl =
     [CreateClient t (url fl) (verbose fl), GetModelMetadata model_name, GetModelConfig model_name]"

text \<open>
  Lines 147 to 181 for one transport: \<open>created\<close> is what the client constructor did,
  \<open>parse_model\<close> the parser of that transport. Client creation catches every
  \<^verbatim>\<open>Exception\<close>; the two fetches catch \<^verbatim>\<open>InferenceServerException\<close> only.
  The result is the run that ended there, or the client's \<^verbatim>\<open>infer\<close> together with
  the parsed triple.
\<close>

definition handshake ::
    "transport \<Rightarrow> (exn + ('m, 'c) client) \<Rightarrow> ('m \<Rightarrow> 'c \<Rightarrow> exn + (json \<times> json \<times> json)) \<Rightarrow> flags
      \<Rightarrow> run + (infer_fun
                 \<times> json \<times> json \<times> json)" where
  "handshake t created parse_model fl =
     (case created of
        Inl e \<Rightarrow>
          Inl \<lparr>stdout = [''client creation failed: '' @ str_exn e],
               calls = [CreateClient t (url fl) (verbose fl)], outcome = Exit 1\<rparr>
      | Inr triton_client \<Rightarrow>
     (case get_model_metadata triton_client model_name of
        Inl e \<Rightarrow>
          (if class_of e = InferenceServerException then
             Inl \<lparr>stdout = [''failed to retrieve the metadata: '' @ str_exn e],
                  calls = [CreateClient t (url fl) (verbose fl), GetModelMetadata model_name],
                  outcome = Exit 1\<rparr>
           else
             Inl \<lparr>stdout = [],
                  calls = [CreateClient t (url fl) (verbose fl), GetModelMetadata model_name],
                  outcome = Uncaught e\<rparr>)
      | Inr metadata \<Rightarrow>
     (case get_model_config triton_client model_name of
        Inl e \<Rightarrow>
          (if class_of e = InferenceServerException then
             Inl \<lparr>stdout = [''failed to retrieve the config: '' @ str_exn e],
                  calls = setup_calls t fl, outcome = Exit 1\<rparr>
           else Inl \<lparr>stdout = [], calls = setup_calls t fl, outcome = Uncaught e\<rparr>)
      | Inr configuration \<Rightarrow>
     (case parse_model metadata configuration of
        Inl e \<Rightarrow> Inl \<lparr>stdout = [], calls = setup_calls t fl, outcome = Uncaught e\<rparr>
      | Inr (input_name, output_name, batch_size) \<Rightarrow>
          Inr (infer triton_client, input_name, output_name, batch_size)))))"

text \<open>
  Lines 145 to 181. Under gRPC the configuration handed to the parser is the
  \<^verbatim>\<open>config\<close> field of the response, and the parsed triple holds two strings and
  an integer.
\<close>

definition connect ::
    "flags \<Rightarrow> world
      \<Rightarrow> run + (infer_fun
                 \<times> json \<times> json \<times> json)" where
  "connect fl w =
     (case select_transport (protocol fl) of
        GRPC \<Rightarrow>
          handshake GRPC (grpc_client w (url fl) (verbose fl))
            (\<lambda>metadata response.
               map_sum id triple_values (parse_model_grpc metadata (config response)))
            fl
      | HTTP \<Rightarrow> handshake HTTP (http_client w (url fl) (verbose fl)) parse_model_http fl)"

text \<open>The script body.\<close>

definition main :: "flags \<Rightarrow> world \<Rightarrow> run" where
  "main fl w =
     (case connect fl w of
        Inl r \<Rightarrow> r
      | Inr (infer_call, input_name, output_name, batch_size) \<Rightarrow>
          (let t = select_transport (protocol fl);
               r = classify t infer_call fl w input_name output_name batch_size
           in r\<lparr>calls := setup_calls t fl @ calls r\<rparr>))"

subsection \<open>What a run observes of the server\<close>

text \<open>
  The exception, if any, that each of the three remote steps of a run raises: client
  creation, the metadata fetch (made once a client exists) and the configuration fetch
  (made once the metadata arrived); and the maximum batch size in the configuration
  the server returns.
\<close>

definition creation_error :: "(exn + ('m, 'c) client) \<Rightarrow> exn option" where
  "creation_error created = (case created of Inl e \<Rightarrow> Some e | Inr c \<Rightarrow> None)"

definition metadata_error :: "(exn + ('m, 'c) client) \<Rightarrow> exn option" where
  "metadata_error created =
     (case created of
        Inl e \<Rightarrow> None
      | Inr c \<Rightarrow> (case get_model_metadata c model_name of Inl e \<Rightarrow> Some e | Inr m \<Rightarrow> None))"

definition config_error :: "(exn + ('m, 'c) client) \<Rightarrow> exn option" where
  "config_error created =
     (case created of
        Inl e \<Rightarrow> None
      | Inr c \<Rightarrow>
          (case get_model_metadata c model_name of
             Inl e \<Rightarrow> None
           | Inr m \<Rightarrow> (case get_model_config c model_name of Inl e \<Rightarrow> Some e | Inr r \<Rightarrow> None)))"

definition client_creation_error :: "flags \<Rightarrow> world \<Rightarrow> exn option" where
  "client_creation_error fl w =
     (case select_transport (protocol fl) of
        GRPC \<Rightarrow> creation_error (grpc_client w (url fl) (verbose fl))
      | HTTP \<Rightarrow> creation_error (http_client w (url fl) (verbose fl)))"

definition metadata_fetch_error :: "flags \<Rightarrow> world \<Rightarrow> exn option" where
  "metadata_fetch_error fl w =
     (case select_transport (protocol fl) of
        GRPC \<Rightarrow> metadata_error (grpc_client w (url fl) (verbose fl))
      | HTTP \<Rightarrow> metadata_error (http_client w (url fl) (verbose fl)))"

definition config_fetch_error :: "flags \<Rightarrow> world \<Rightarrow> exn option" where
  "config_fetch_error fl w =
     (case select_transport (protocol fl) of
        GRPC \<Rightarrow> config_error (grpc_client w (url fl) (verbose fl))
      | HTTP \<Rightarrow> config_error (http_client w (url fl) (verbose fl)))"


text \<open>
  The same server seen through the HTTP client: it answers with the dictionaries that
  carry the values of the messages, raises what the gRPC client raises, and answers an
  inference request as it answers the request without the \<open>binary_data\<close> settings.
\<close>

definition http_view :: "(model_metadata, model_config_response) client \<Rightarrow> (json, json) client" where
  "http_view c =
     \<lparr>get_model_metadata = (\<lambda>n. map_sum id dict_of_model_metadata (get_model_metadata c n)),
      get_model_config = (\<lambda>n. map_sum id (\<lambda>r. dict_of_model_config (config r)) (get_model_config c n)),
      infer = (\<lambda>n ins outs.
        infer c n (map (\<lambda>x. x\<lparr>ii_binary_data := None\<rparr>) ins)
          (map (\<lambda>x. x\<lparr>ro_binary_data := None\<rparr>) outs))\<rparr>"

subsection \<open>A server and a directory to run against\<close>

text \<open>\<^verbatim>\<open>ord\<close> of a character, and the bytes of a string of code points below 256.\<close>

definition ord :: "char \<Rightarrow> byte" where
  "ord c = of_nat (of_char c)"

definition encode :: "string \<Rightarrow> byte list" where
  "encode s = map ord s"

text \<open>The class result \<^verbatim>\<open>id:score:label\<close> as an element of a bytes array.\<close>

definition class_result :: "string \<times> string \<times> string \<Rightarrow> element" where
  "class_result t = (case t of (i, s, l) \<Rightarrow> Bytes (encode (i @ '':'' @ s @ '':'' @ l)))"

text \<open>
  The line printed for a class result, and the class results none of whose three fields
  holds a colon.
\<close>

definition class_line :: "string \<times> string \<times> string \<Rightarrow> string" where
  "class_line t = (case t of (i, s, l) \<Rightarrow> ''    '' @ i @ '' ('' @ s @ '') = '' @ l)"

definition colon_free :: "string \<times> string \<times> string \<Rightarrow> bool" where
  "colon_free t =
     (case t of (i, s, l) \<Rightarrow> CHR '':'' \<notin> set i \<and> CHR '':'' \<notin> set s \<and> CHR '':'' \<notin> set l)"

definition ex_metadata :: model_metadata where
  "ex_metadata =
     \<lparr>inputs = [\<lparr>name = ''INPUT'', tensor_datatype = ''BYTES'', shape = [- 1, 1]\<rparr>],
      outputs = [\<lparr>name = ''OUTPUT'', tensor_datatype = ''FP32'', shape = [- 1, 1000]\<rparr>]\<rparr>"

definition ex_config :: "int \<Rightarrow> model_config" where
  "ex_config m =
     \<lparr>config_input = [\<lparr>tensor_name = ''INPUT'', dims = [1]\<rparr>],
      config_output = [\<lparr>tensor_name = ''OUTPUT'', dims = [1000]\<rparr>],
      max_batch_size = m\<rparr>"

text \<open>A server that answers every image of a request with one class result.\<close>

definition ex_result :: "infer_input list \<Rightarrow> infer_result" where
  "ex_result ins =
     \<lparr>as_numpy = (\<lambda>n. Some \<lparr>dtype = np_bytes,
        rows = map (\<lambda>blob. [class_result (''0.9'', ''281'', ''TABBY'')]) (concat (map ii_data ins))\<rparr>)\<rparr>"

definition ex_server :: "model_metadata \<Rightarrow> model_config \<Rightarrow> (model_metadata, model_config_response) client" where
  "ex_server m c =
     \<lparr>get_model_metadata = (\<lambda>n. Inr m),
      get_model_config = (\<lambda>n. Inr \<lparr>config = c\<rparr>),
      infer = (\<lambda>n ins outs. Inr (ex_result ins))\<rparr>"

text \<open>
  A world whose directory \<^verbatim>\<open>images\<close> holds two files and a subdirectory, and whose
  server is reachable over both transports.
\<close>

definition ex_world :: "(model_metadata, model_config_response) client \<Rightarrow> world" where
  "ex_world c =
     \<lparr>grpc_client = (\<lambda>u v. Inr c),
      http_client = (\<lambda>u v. Inr (http_view c)),
      isdir = (\<lambda>p. p = ''images''),
      listdir = (\<lambda>p. Inr [''dog.jpg'', ''cat.jpg'', ''sub'']),
      isfile = (\<lambda>p. p = ''images/dog.jpg'' \<or> p = ''images/cat.jpg''),
      read_file = (\<lambda>p.
        if p = ''images/dog.jpg'' then Inr [1, 2]
        else if p = ''images/cat.jpg'' then Inr [3]
        else Inl (Raised OSError ''No such file or directory''))\<rparr>"


text \<open>
  Two servers that misbehave: one answers every request with an empty array, one
  raises the given exception when asked for the metadata.
\<close>

definition ex_empty_reply :: "(model_metadata, model_config_response) client" where
  "ex_empty_reply =
     (ex_server ex_metadata (ex_config 8))\<lparr>infer := (\<lambda>n ins outs. Inr (ex_result []))\<rparr>"

definition ex_no_metadata :: "exn \<Rightarrow> (model_metadata, model_config_response) client" where
  "ex_no_metadata e =
     (ex_server ex_metadata (ex_config 8))\<lparr>get_model_metadata := (\<lambda>n. Inl e)\<rparr>"

text \<open>A server that raises when asked for the configuration, and a world with no server.\<close>

definition ex_no_config :: "exn \<Rightarrow> (model_metadata, model_config_response) client" where
  "ex_no_config e =
     (ex_server ex_metadata (ex_config 8))\<lparr>get_model_config := (\<lambda>n. Inl e)\<rparr>"

definition ex_no_client :: "exn \<Rightarrow> world" where
  "ex_no_client e =
     (ex_world (ex_server ex_metadata (ex_config 8)))
       \<lparr>grpc_client := (\<lambda>u v. Inl e), http_client := (\<lambda>u v. Inl e)\<rparr>"

definition ex_flags :: "string \<Rightarrow> string option \<Rightarrow> flags" where
  "ex_flags p f =
     \<lparr>verbose = False, classes = 1, url = ''localhost:8000'', protocol = p,
      image_filename = f\<rparr>"

section \<open>Properties\<close>

subsection \<open>Sorting joined paths\<close>

text \<open>
  The script sorts the joined paths, not the names. For the entries of one directory
  the two orders agree, because every path is the same prefix followed by the name.
\<close>

lemma append_le_append: "(p @ x \<le> p @ (y::string)) \<longleftrightarrow> x \<le> y"
  by (induction p) auto

lemma insort_prefix:
  "insort (p @ x) (map ((@) p) xs) = map ((@) p) (insort (x::string) xs)"
  by (induction xs) (auto simp add: append_le_append)

lemma sort_prefix: "sort (map ((@) p) xs) = map ((@) p) (sort (xs::string list))"
  by (induction xs) (auto simp add: insort_prefix)

lemma join_entry: "take 1 f \<noteq> ''/'' \<Longrightarrow> join d f = dir_prefix d @ f"
  by (simp add: join_def dir_prefix_def)

lemma sort_join:
  assumes "\<forall>f\<in>set fs. take 1 f \<noteq> ''/''"
  shows "sort (map (join d) fs) = map (join d) (sort fs)"
proof -
  have "map (join d) fs = map ((@) (dir_prefix d)) fs"
    by (rule map_cong) (use assms in \<open>auto simp add: join_entry\<close>)
  moreover have "map (join d) (sort fs) = map ((@) (dir_prefix d)) (sort fs)"
    by (rule map_cong) (use assms in \<open>auto simp add: join_entry\<close>)
  ultimately show ?thesis by (simp only: sort_prefix)
qed

lemma list_filenames_dir:
  assumes "isdir w d" "listdir w d = Inr names" "\<forall>f\<in>set names. take 1 f \<noteq> ''/''"
  shows "list_filenames w (Some d) = Inr (map (join d) (sort [f\<leftarrow>names. isfile w (join d f)]))"
proof -
  have "\<forall>f\<in>set [f\<leftarrow>names. isfile w (join d f)]. take 1 f \<noteq> ''/''"
    using assms(3) by simp
  then have "sort (map (join d) [f\<leftarrow>names. isfile w (join d f)])
      = map (join d) (sort [f\<leftarrow>names. isfile w (join d f)])"
    by (rule sort_join)
  moreover have "[join d f. f \<leftarrow> names, isfile w (join d f)] = map (join d) [f\<leftarrow>names. isfile w (join d f)]"
    by (induction names) auto
  ultimately show ?thesis
    using assms(1,2) by (simp add: list_filenames_def and_then_def)
qed

subsection \<open>The two loops\<close>

lemma read_images_all:
  assumes "\<forall>i\<in>set idxs. i < length fns"
    and "map (\<lambda>i. read_file w (fns ! i)) idxs = map Inr blobs"
  shows "read_images w fns idxs = (map (\<lambda>i. OpenFile (fns ! i)) idxs, Inr (map np_array blobs))"
  using assms
proof (induction idxs arbitrary: blobs)
  case Nil
  then show ?case by simp
next
  case (Cons i idxs)
  then obtain b bs where blobs: "blobs = b # bs" by (cases blobs) auto
  with Cons.prems have "read_file w (fns ! i) = Inr b" "map (\<lambda>i. read_file w (fns ! i)) idxs = map Inr bs"
    by auto
  moreover have "read_images w fns idxs = (map (\<lambda>i. OpenFile (fns ! i)) idxs, Inr (map np_array bs))"
    using Cons.IH Cons.prems calculation by simp
  ultimately show ?case using Cons.prems blobs by simp
qed

lemma read_images_length:
  "read_images w fns idxs = (opened, Inr imgs) \<Longrightarrow> length imgs = length idxs"
  by (induction idxs arbitrary: opened imgs)
    (auto split: if_splits sum.splits prod.splits simp add: map_sum_def)


lemma repeat_images_all:
  assumes "\<forall>i\<in>set idxs. i < length fns \<and> i < length imgs"
  shows "repeat_images fns imgs idxs = Inr (map ((!) fns) idxs, map ((!) imgs) idxs)"
  using assms by (induction idxs) (auto simp add: and_then_def)

lemma repeat_images_length:
  "repeat_images fns imgs idxs = Inr (a, b) \<Longrightarrow> length b = length idxs"
  by (induction idxs arbitrary: a b)
    (auto split: if_splits sum.splits prod.splits simp add: and_then_def)

lemma map_nth_take: "n \<le> length xs \<Longrightarrow> map ((!) xs) [0..<n] = take n xs"
  by (rule nth_equalityI) auto


lemma np_stack_Inr: "np_stack xs = Inr ys \<longleftrightarrow> xs \<noteq> [] \<and> ys = xs"
  by (auto simp add: np_stack_def)

lemma assemble_all:
  assumes "n \<le> length fns" "map (read_file w) (take n fns) = map Inr blobs"
  shows "assemble w fns (int n) =
     (map OpenFile (take n fns),
      if n = 0 then Inl (Raised ValueError ''need at least one array to stack'')
      else Inr (take n fns, map np_array blobs))"
proof -
  define imgs where "imgs = map np_array blobs"
  have "length blobs = n"
    using assms by (metis length_map length_take min.absorb2)
  then have len: "length imgs = n" by (simp add: imgs_def)
  have idx: "\<forall>i\<in>set [0..<n]. i < length fns" using assms(1) by auto
  have "map (\<lambda>i. read_file w (fns ! i)) [0..<n] = map (read_file w) (map ((!) fns) [0..<n])"
    by simp
  also have "\<dots> = map Inr blobs" using assms by (simp only: map_nth_take)
  finally have rd: "read_images w fns [0..<n] = (map (\<lambda>i. OpenFile (fns ! i)) [0..<n], Inr imgs)"
    unfolding imgs_def using idx by (intro read_images_all)
  have "map (\<lambda>i. OpenFile (fns ! i)) [0..<n] = map OpenFile (map ((!) fns) [0..<n])" by simp
  also have "\<dots> = map OpenFile (take n fns)" using assms(1) by (simp only: map_nth_take)
  finally have ev: "map (\<lambda>i. OpenFile (fns ! i)) [0..<n] = map OpenFile (take n fns)" .
  have "repeat_images fns imgs [0..<n] = Inr (map ((!) fns) [0..<n], map ((!) imgs) [0..<n])"
    using assms(1) len by (intro repeat_images_all) auto
  then have rp: "repeat_images fns imgs [0..<n] = Inr (take n fns, imgs)"
    using assms(1) len by (simp add: map_nth_take)
  have "assemble w fns (int n) =
     (map OpenFile (take n fns),
      if n = 0 then Inl (Raised ValueError ''need at least one array to stack'')
      else Inr (take n fns, imgs))"
    using len by (auto simp add: assemble_def py_range_def rd ev rp and_then_def np_stack_def)
  then show ?thesis unfolding imgs_def .
qed


lemma assemble_length:
  assumes "assemble w fns n = (opened, Inr (names, batch))"
  shows "batch \<noteq> [] \<and> length batch = nat n"
  using assms
  by (auto simp add: assemble_def and_then_def np_stack_Inr py_range_def
      split: prod.splits sum.splits if_splits dest: repeat_images_length)


subsection \<open>The requests of a run\<close>











lemma main_connect_Inr:
  "connect fl w = Inr (ic, i, out, b) \<Longrightarrow>
   main fl w = (classify (select_transport (protocol fl)) ic fl w i out b)
     \<lparr>calls := setup_calls (select_transport (protocol fl)) fl
        @ calls (classify (select_transport (protocol fl)) ic fl w i out b)\<rparr>"
  by (simp add: main_def Let_def)

lemma main_connect_Inl: "connect fl w = Inl r \<Longrightarrow> main fl w = r"
  by (simp add: main_def)



subsection \<open>The example server\<close>

lemma select_transport_HTTP: "select_transport ''HTTP'' = HTTP"
  by code_simp

lemma select_transport_gRPC: "select_transport ''gRPC'' = GRPC"
  by code_simp

lemma ex_flags_transport:
  "select_transport (protocol (ex_flags ''gRPC'' f)) = GRPC"
  "select_transport (protocol (ex_flags ''HTTP'' f)) = HTTP"
  by (simp_all add: ex_flags_def select_transport_gRPC select_transport_HTTP)

lemma parse_model_http_dict:
  "parse_model_http (dict_of_model_metadata md) (dict_of_model_config cfg)
     = map_sum id triple_values (parse_model_grpc md cfg)"
  by (auto simp add: parse_model_http_def parse_model_grpc_def dict_of_model_metadata_def
      dict_of_model_config_def dict_of_tensor_metadata_def dict_of_model_tensor_def
      and_then_def triple_values_def length_Suc_conv)

lemma ex_parse: "parse_model_grpc ex_metadata (ex_config m) = Inr (''INPUT'', ''OUTPUT'', m)"
  by (simp add: parse_model_grpc_def ex_metadata_def ex_config_def)


lemma ex_connect_grpc:
  "connect (ex_flags ''gRPC'' f) (ex_world (ex_server ex_metadata (ex_config m)))
     = Inr (infer (ex_server ex_metadata (ex_config m)),
            JStr ''INPUT'', JStr ''OUTPUT'', JInt m)"
  by (simp add: connect_def ex_flags_def select_transport_gRPC handshake_def ex_world_def
      ex_server_def ex_parse triple_values_def)

lemma ex_regular:
  "[f\<leftarrow>[''dog.jpg'', ''cat.jpg'', ''sub'']. isfile (ex_world c) (join ''images'' f)]
     = [''dog.jpg'', ''cat.jpg'']"
  by (simp add: ex_world_def join_def)

lemma ex_sorted: "map (join ''images'') (sort [''dog.jpg'', ''cat.jpg'']) = [''images/cat.jpg'', ''images/dog.jpg'']"
  by (simp add: join_def)

subsection \<open>Batch size and batch contents\<close>










subsection \<open>Model parsing\<close>

lemma parse_model_http_ignores_output:
  "parse_model_http mj (JDict ((''output'', v) # d)) = parse_model_http mj (JDict d)"
proof -
  have a: "py_getitem (JDict ((''output'', v) # d)) ''input'' = py_getitem (JDict d) ''input''"
    by simp
  have b: "py_getitem (JDict ((''output'', v) # d)) ''max_batch_size''
             = py_getitem (JDict d) ''max_batch_size''"
    by simp
  show ?thesis
    unfolding parse_model_http_def a b ..
qed

lemma handshake_fetched:
  assumes "get_model_metadata c model_name = Inr md"
    "get_model_config c model_name = Inr cfg"
  shows "handshake t (Inr c) parse fl =
     (case parse md cfg of
        Inl e \<Rightarrow> Inl \<lparr>stdout = [], calls = setup_calls t fl, outcome = Uncaught e\<rparr>
      | Inr tr \<Rightarrow> Inr (infer c, tr))"
  using assms by (auto simp add: handshake_def split: sum.splits)

lemma main_parse_raises_grpc:
  assumes "select_transport (protocol fl) = GRPC" "grpc_client w (url fl) (verbose fl) = Inr c"
    "get_model_metadata c model_name = Inr md" "get_model_config c model_name = Inr r"
    "parse_model_grpc md (config r) = Inl e"
  shows "main fl w = \<lparr>stdout = [], calls = setup_calls GRPC fl, outcome = Uncaught e\<rparr>"
  using assms by (simp add: main_def connect_def handshake_fetched [OF assms(3,4)])

lemma main_parse_raises_http:
  assumes "select_transport (protocol fl) = HTTP" "http_client w (url fl) (verbose fl) = Inr c"
    "get_model_metadata c model_name = Inr mj" "get_model_config c model_name = Inr cj"
    "parse_model_http mj cj = Inl e"
  shows "main fl w = \<lparr>stdout = [], calls = setup_calls HTTP fl, outcome = Uncaught e\<rparr>"
  using assms by (simp add: main_def connect_def handshake_fetched [OF assms(3,4)])

lemma parse_model_grpc_inputs:
  "length (inputs md) \<noteq> 1 \<Longrightarrow>
   parse_model_grpc md cfg =
     Inl (Raised Exception (''expecting 1 input, got '' @ str_nat (length (inputs md))))"
  by (simp add: parse_model_grpc_def)

lemma parse_model_grpc_outputs:
  "length (inputs md) = 1 \<Longrightarrow> length (outputs md) \<noteq> 1 \<Longrightarrow>
   parse_model_grpc md cfg =
     Inl (Raised Exception (''expecting 1 output, got '' @ str_nat (length (outputs md))))"
  by (simp add: parse_model_grpc_def)

lemma parse_model_grpc_config_inputs:
  "length (inputs md) = 1 \<Longrightarrow> length (outputs md) = 1 \<Longrightarrow> length (config_input cfg) \<noteq> 1 \<Longrightarrow>
   parse_model_grpc md cfg =
     Inl (Raised Exception
       (''expecting 1 input in model configuration, got '' @ str_nat (length (config_input cfg))))"
  by (simp add: parse_model_grpc_def)

lemma parse_model_grpc_triple:
  "length (inputs md) = 1 \<Longrightarrow> length (outputs md) = 1 \<Longrightarrow> length (config_input cfg) = 1 \<Longrightarrow>
   parse_model_grpc md cfg = Inr (name (inputs md ! 0), name (outputs md ! 0), max_batch_size cfg)"
  by (simp add: parse_model_grpc_def)

lemma parse_model_grpc_metadata_only:
  assumes "length (inputs md) \<noteq> 1 \<or> length (outputs md) \<noteq> 1"
  shows "\<exists>msg. \<forall>cfg. parse_model_grpc md cfg = Inl (Raised Exception msg)"
  using assms by (cases "length (inputs md) = 1") (auto simp add: parse_model_grpc_def)

lemma parse_model_http_metadata_only:
  assumes "length (inputs md) \<noteq> 1 \<or> length (outputs md) \<noteq> 1"
  shows "\<exists>msg. \<forall>cj. parse_model_http (dict_of_model_metadata md) cj = Inl (Raised Exception msg)"
  using assms
  by (cases "length (inputs md) = 1")
    (auto simp add: parse_model_http_def dict_of_model_metadata_def and_then_def)

text \<open>
  Claim C3, as amended. A metadata input count or output count other than 1 makes
  either parser raise, and the run then ends with that exception uncaught after the
  three set-up calls, so before any inference call. When both counts are 1 and the
  configuration also declares exactly one input, the parser returns the input name,
  the output name and the maximum batch size; the HTTP parser on the dictionaries of
  the same values returns what the gRPC parser returns on the messages.
\<close>

theorem model_cardinality_checked:
  "(length (inputs md) \<noteq> 1 \<longrightarrow>
      parse_model_grpc md cfg =
        Inl (Raised Exception (''expecting 1 input, got '' @ str_nat (length (inputs md)))))
   \<and> (length (inputs md) = 1 \<and> length (outputs md) \<noteq> 1 \<longrightarrow>
      parse_model_grpc md cfg =
        Inl (Raised Exception (''expecting 1 output, got '' @ str_nat (length (outputs md)))))
   \<and> (length (inputs md) = 1 \<and> length (outputs md) = 1 \<and> length (config_input cfg) = 1 \<longrightarrow>
      parse_model_grpc md cfg =
        Inr (name (inputs md ! 0), name (outputs md ! 0), max_batch_size cfg))
   \<and> parse_model_http (dict_of_model_metadata md) (dict_of_model_config cfg)
       = map_sum id triple_values (parse_model_grpc md cfg)
   \<and> ((length (inputs md) \<noteq> 1 \<or> length (outputs md) \<noteq> 1)
       \<and> (select_transport (protocol fl) = GRPC \<and> grpc_client w (url fl) (verbose fl) = Inr c
            \<and> get_model_metadata c model_name = Inr md \<and> get_model_config c model_name = Inr r
          \<or> select_transport (protocol fl) = HTTP \<and> http_client w (url fl) (verbose fl) = Inr c'
            \<and> get_model_metadata c' model_name = Inr (dict_of_model_metadata md)
            \<and> get_model_config c' model_name = Inr cj)
      \<longrightarrow> stdout (main fl w) = []
        \<and> calls (main fl w) = setup_calls (select_transport (protocol fl)) fl
        \<and> (\<exists>msg. outcome (main fl w) = Uncaught (Raised Exception msg)))"
proof (intro conjI impI)
  assume "length (inputs md) \<noteq> 1"
  then show "parse_model_grpc md cfg =
        Inl (Raised Exception (''expecting 1 input, got '' @ str_nat (length (inputs md))))"
    by (rule parse_model_grpc_inputs)
next
  assume "length (inputs md) = 1 \<and> length (outputs md) \<noteq> 1"
  then show "parse_model_grpc md cfg =
        Inl (Raised Exception (''expecting 1 output, got '' @ str_nat (length (outputs md))))"
    by (simp add: parse_model_grpc_outputs)
next
  assume "length (inputs md) = 1 \<and> length (outputs md) = 1 \<and> length (config_input cfg) = 1"
  then show "parse_model_grpc md cfg =
        Inr (name (inputs md ! 0), name (outputs md ! 0), max_batch_size cfg)"
    by (simp add: parse_model_grpc_triple)
next
  show "parse_model_http (dict_of_model_metadata md) (dict_of_model_config cfg)
       = map_sum id triple_values (parse_model_grpc md cfg)"
    by (rule parse_model_http_dict)
next
  assume h: "(length (inputs md) \<noteq> 1 \<or> length (outputs md) \<noteq> 1)
       \<and> (select_transport (protocol fl) = GRPC \<and> grpc_client w (url fl) (verbose fl) = Inr c
            \<and> get_model_metadata c model_name = Inr md \<and> get_model_config c model_name = Inr r
          \<or> select_transport (protocol fl) = HTTP \<and> http_client w (url fl) (verbose fl) = Inr c'
            \<and> get_model_metadata c' model_name = Inr (dict_of_model_metadata md)
            \<and> get_model_config c' model_name = Inr cj)"
  then obtain m1 m2 where
    g: "parse_model_grpc md (config r) = Inl (Raised Exception m1)" and
    j: "parse_model_http (dict_of_model_metadata md) cj = Inl (Raised Exception m2)"
    using parse_model_grpc_metadata_only parse_model_http_metadata_only by blast
  from h have "select_transport (protocol fl) = GRPC \<and> grpc_client w (url fl) (verbose fl) = Inr c
            \<and> get_model_metadata c model_name = Inr md \<and> get_model_config c model_name = Inr r
          \<or> select_transport (protocol fl) = HTTP \<and> http_client w (url fl) (verbose fl) = Inr c'
            \<and> get_model_metadata c' model_name = Inr (dict_of_model_metadata md)
            \<and> get_model_config c' model_name = Inr cj"
    by blast
  then have "\<exists>msg. main fl w =
      \<lparr>stdout = [], calls = setup_calls (select_transport (protocol fl)) fl,
       outcome = Uncaught (Raised Exception msg)\<rparr>"
  proof (elim conjE disjE)
    assume "select_transport (protocol fl) = GRPC" "grpc_client w (url fl) (verbose fl) = Inr c"
      "get_model_metadata c model_name = Inr md" "get_model_config c model_name = Inr r"
    then show ?thesis using main_parse_raises_grpc [OF _ _ _ _ g] by simp
  next
    assume "select_transport (protocol fl) = HTTP" "http_client w (url fl) (verbose fl) = Inr c'"
      "get_model_metadata c' model_name = Inr (dict_of_model_metadata md)"
      "get_model_config c' model_name = Inr cj"
    then show ?thesis using main_parse_raises_http [OF _ _ _ _ j] by simp
  qed
  then obtain msg where m: "main fl w =
      \<lparr>stdout = [], calls = setup_calls (select_transport (protocol fl)) fl,
       outcome = Uncaught (Raised Exception msg)\<rparr>" by blast
  show "stdout (main fl w) = []" by (simp add: m)
  show "calls (main fl w) = setup_calls (select_transport (protocol fl)) fl" by (simp add: m)
  show "\<exists>msg. outcome (main fl w) = Uncaught (Raised Exception msg)" by (simp add: m)
qed


lemma str_nat_0: "str_nat 0 = ''0''"
  by (simp add: str_nat.simps digit_char_def)

lemma ex_world_grpc: "grpc_client (ex_world c) u v = Inr c"
  by (simp add: ex_world_def)

lemma ex_world_http: "http_client (ex_world c) u v = Inr (http_view c)"
  by (simp add: ex_world_def)

lemma ex_server_fetch:
  "get_model_metadata (ex_server m c) n = Inr m"
  "get_model_config (ex_server m c) n = Inr \<lparr>config = c\<rparr>"
  "get_model_metadata (http_view (ex_server m c)) n = Inr (dict_of_model_metadata m)"
  "get_model_config (http_view (ex_server m c)) n = Inr (dict_of_model_config c)"
  by (simp_all add: ex_server_def http_view_def)

lemma ex_setup_calls:
  "setup_calls t (ex_flags p f) =
     [CreateClient t ''localhost:8000'' False, GetModelMetadata model_name, GetModelConfig model_name]"
  by (simp add: setup_calls_def ex_flags_def)

theorem model_cardinality_checked_witness:
  "parse_model_grpc (ex_metadata\<lparr>inputs := []\<rparr>) (ex_config 8)
     = Inl (Raised Exception ''expecting 1 input, got 0'')
   \<and> parse_model_grpc (ex_metadata\<lparr>outputs := []\<rparr>) (ex_config 8)
     = Inl (Raised Exception ''expecting 1 output, got 0'')
   \<and> parse_model_grpc ex_metadata (ex_config 8) = Inr (''INPUT'', ''OUTPUT'', 8)
   \<and> calls (main (ex_flags ''gRPC'' (Some ''images'')) (ex_world (ex_server (ex_metadata\<lparr>inputs := []\<rparr>) (ex_config 8))))
     = [CreateClient GRPC ''localhost:8000'' False, GetModelMetadata model_name,
        GetModelConfig model_name]
   \<and> calls (main (ex_flags ''HTTP'' (Some ''images'')) (ex_world (ex_server (ex_metadata\<lparr>outputs := []\<rparr>) (ex_config 8))))
     = [CreateClient HTTP ''localhost:8000'' False, GetModelMetadata model_name,
        GetModelConfig model_name]"
proof -
  let ?mi = "ex_metadata\<lparr>inputs := []\<rparr>"
  let ?mo = "ex_metadata\<lparr>outputs := []\<rparr>"
  have i: "length (inputs ?mi) \<noteq> 1" by simp
  have o: "length (inputs ?mo) = 1 \<and> length (outputs ?mo) \<noteq> 1" by (simp add: ex_metadata_def)
  have a: "length (inputs ex_metadata) = 1 \<and> length (outputs ex_metadata) = 1
      \<and> length (config_input (ex_config 8)) = 1"
    by (simp add: ex_metadata_def ex_config_def)
  have "parse_model_grpc ?mi (ex_config 8)
      = Inl (Raised Exception (''expecting 1 input, got '' @ str_nat (length (inputs ?mi))))"
    using i model_cardinality_checked [where md = ?mi and cfg = "ex_config 8"] by blast
  then have 1: "parse_model_grpc ?mi (ex_config 8) = Inl (Raised Exception ''expecting 1 input, got 0'')"
    by (simp add: str_nat_0)
  have "parse_model_grpc ?mo (ex_config 8)
      = Inl (Raised Exception (''expecting 1 output, got '' @ str_nat (length (outputs ?mo))))"
    using o model_cardinality_checked [where md = ?mo and cfg = "ex_config 8"] by blast
  then have 2: "parse_model_grpc ?mo (ex_config 8) = Inl (Raised Exception ''expecting 1 output, got 0'')"
    by (simp add: str_nat_0)
  have "parse_model_grpc ex_metadata (ex_config 8)
      = Inr (name (inputs ex_metadata ! 0), name (outputs ex_metadata ! 0), max_batch_size (ex_config 8))"
    using a model_cardinality_checked [where md = ex_metadata and cfg = "ex_config 8"] by blast
  then have 3: "parse_model_grpc ex_metadata (ex_config 8) = Inr (''INPUT'', ''OUTPUT'', 8)"
    by (simp add: ex_metadata_def ex_config_def)
  let ?fg = "ex_flags ''gRPC'' (Some ''images'')" and ?wg = "ex_world (ex_server ?mi (ex_config 8))"
  have "(length (inputs ?mi) \<noteq> 1 \<or> length (outputs ?mi) \<noteq> 1)
      \<and> (select_transport (protocol ?fg) = GRPC \<and> grpc_client ?wg (url ?fg) (verbose ?fg) = Inr (ex_server ?mi (ex_config 8))
            \<and> get_model_metadata (ex_server ?mi (ex_config 8)) model_name = Inr ?mi
            \<and> get_model_config (ex_server ?mi (ex_config 8)) model_name = Inr \<lparr>config = ex_config 8\<rparr>
          \<or> select_transport (protocol ?fg) = HTTP \<and> http_client ?wg (url ?fg) (verbose ?fg) = Inr (http_view (ex_server ?mi (ex_config 8)))
            \<and> get_model_metadata (http_view (ex_server ?mi (ex_config 8))) model_name = Inr (dict_of_model_metadata ?mi)
            \<and> get_model_config (http_view (ex_server ?mi (ex_config 8))) model_name = Inr (dict_of_model_config (ex_config 8)))"
    using i by (simp only: ex_flags_transport ex_world_grpc ex_server_fetch) simp
  then have "calls (main ?fg ?wg) = setup_calls (select_transport (protocol ?fg)) ?fg"
    using model_cardinality_checked [where md = ?mi and fl = ?fg and w = ?wg
        and c = "ex_server ?mi (ex_config 8)" and r = "\<lparr>config = ex_config 8\<rparr>"
        and c' = "http_view (ex_server ?mi (ex_config 8))"
        and cj = "dict_of_model_config (ex_config 8)"]
    by blast
  then have 4: "calls (main ?fg ?wg) = [CreateClient GRPC ''localhost:8000'' False,
      GetModelMetadata model_name, GetModelConfig model_name]"
    by (simp only: ex_flags_transport ex_setup_calls)
  let ?fh = "ex_flags ''HTTP'' (Some ''images'')" and ?wh = "ex_world (ex_server ?mo (ex_config 8))"
  have "(length (inputs ?mo) \<noteq> 1 \<or> length (outputs ?mo) \<noteq> 1)
      \<and> (select_transport (protocol ?fh) = GRPC \<and> grpc_client ?wh (url ?fh) (verbose ?fh) = Inr (ex_server ?mo (ex_config 8))
            \<and> get_model_metadata (ex_server ?mo (ex_config 8)) model_name = Inr ?mo
            \<and> get_model_config (ex_server ?mo (ex_config 8)) model_name = Inr \<lparr>config = ex_config 8\<rparr>
          \<or> select_transport (protocol ?fh) = HTTP \<and> http_client ?wh (url ?fh) (verbose ?fh) = Inr (http_view (ex_server ?mo (ex_config 8)))
            \<and> get_model_metadata (http_view (ex_server ?mo (ex_config 8))) model_name = Inr (dict_of_model_metadata ?mo)
            \<and> get_model_config (http_view (ex_server ?mo (ex_config 8))) model_name = Inr (dict_of_model_config (ex_config 8)))"
    using o by (simp only: ex_flags_transport ex_world_http ex_server_fetch) simp
  then have "calls (main ?fh ?wh) = setup_calls (select_transport (protocol ?fh)) ?fh"
    using model_cardinality_checked [where md = ?mo and fl = ?fh and w = ?wh
        and c = "ex_server ?mo (ex_config 8)" and r = "\<lparr>config = ex_config 8\<rparr>"
        and c' = "http_view (ex_server ?mo (ex_config 8))"
        and cj = "dict_of_model_config (ex_config 8)"]
    by blast
  then have 5: "calls (main ?fh ?wh) = [CreateClient HTTP ''localhost:8000'' False,
      GetModelMetadata model_name, GetModelConfig model_name]"
    by (simp only: ex_flags_transport ex_setup_calls)
  from 1 2 3 4 5 show ?thesis by blast
qed

text \<open>
  The claim as first stated fails where the metadata counts are both 1 and the
  configuration declares no input: no triple is returned, under either protocol.
\<close>

theorem model_cardinality_checked_counterexample:
  "length (inputs ex_metadata) = 1 \<and> length (outputs ex_metadata) = 1
   \<and> parse_model_grpc ex_metadata ((ex_config 8)\<lparr>config_input := []\<rparr>)
       = Inl (Raised Exception ''expecting 1 input in model configuration, got 0'')
   \<and> parse_model_http (dict_of_model_metadata ex_metadata)
         (dict_of_model_config ((ex_config 8)\<lparr>config_input := []\<rparr>))
       = Inl (Raised Exception ''expecting 1 input in model configuration, got 0'')"
  by (simp add: parse_model_http_dict parse_model_grpc_def ex_metadata_def ex_config_def str_nat_0)

text \<open>
  Claim C9. With one metadata input and one metadata output, a configuration whose
  input count is not 1 makes either parser raise, and the run ends there, uncaught,
  after the three set-up calls. The configuration's outputs are never read: replacing
  them in the message, or putting any value under the key \<^verbatim>\<open>output\<close> of the
  dictionary, leaves the parser's result as it was.
\<close>

theorem configuration_inputs_checked:
  "(length (inputs md) = 1 \<and> length (outputs md) = 1 \<and> length (config_input cfg) \<noteq> 1 \<longrightarrow>
      parse_model_grpc md cfg =
        Inl (Raised Exception
          (''expecting 1 input in model configuration, got '' @ str_nat (length (config_input cfg))))
      \<and> parse_model_http (dict_of_model_metadata md) (dict_of_model_config cfg) =
        Inl (Raised Exception
          (''expecting 1 input in model configuration, got '' @ str_nat (length (config_input cfg))))
      \<and> (select_transport (protocol fl) = GRPC \<and> grpc_client w (url fl) (verbose fl) = Inr c
            \<and> get_model_metadata c model_name = Inr md
            \<and> get_model_config c model_name = Inr \<lparr>config = cfg\<rparr>
          \<or> select_transport (protocol fl) = HTTP \<and> http_client w (url fl) (verbose fl) = Inr c'
            \<and> get_model_metadata c' model_name = Inr (dict_of_model_metadata md)
            \<and> get_model_config c' model_name = Inr (dict_of_model_config cfg)
         \<longrightarrow> main fl w =
               \<lparr>stdout = [], calls = setup_calls (select_transport (protocol fl)) fl,
                outcome = Uncaught (Raised Exception
                  (''expecting 1 input in model configuration, got ''
                     @ str_nat (length (config_input cfg))))\<rparr>))
   \<and> parse_model_grpc md (cfg\<lparr>config_output := outs\<rparr>) = parse_model_grpc md cfg
   \<and> parse_model_http mj (JDict ((''output'', v) # d)) = parse_model_http mj (JDict d)"
proof (intro conjI impI)
  show "parse_model_grpc md (cfg\<lparr>config_output := outs\<rparr>) = parse_model_grpc md cfg"
    by (simp add: parse_model_grpc_def)
  show "parse_model_http mj (JDict ((''output'', v) # d)) = parse_model_http mj (JDict d)"
    by (rule parse_model_http_ignores_output)
next
  assume h: "length (inputs md) = 1 \<and> length (outputs md) = 1 \<and> length (config_input cfg) \<noteq> 1"
  then show g: "parse_model_grpc md cfg =
        Inl (Raised Exception
          (''expecting 1 input in model configuration, got '' @ str_nat (length (config_input cfg))))"
    by (simp add: parse_model_grpc_config_inputs)
  then show j: "parse_model_http (dict_of_model_metadata md) (dict_of_model_config cfg) =
        Inl (Raised Exception
          (''expecting 1 input in model configuration, got '' @ str_nat (length (config_input cfg))))"
    by (simp add: parse_model_http_dict)
  assume "select_transport (protocol fl) = GRPC \<and> grpc_client w (url fl) (verbose fl) = Inr c
            \<and> get_model_metadata c model_name = Inr md
            \<and> get_model_config c model_name = Inr \<lparr>config = cfg\<rparr>
          \<or> select_transport (protocol fl) = HTTP \<and> http_client w (url fl) (verbose fl) = Inr c'
            \<and> get_model_metadata c' model_name = Inr (dict_of_model_metadata md)
            \<and> get_model_config c' model_name = Inr (dict_of_model_config cfg)"
  then show "main fl w =
               \<lparr>stdout = [], calls = setup_calls (select_transport (protocol fl)) fl,
                outcome = Uncaught (Raised Exception
                  (''expecting 1 input in model configuration, got ''
                     @ str_nat (length (config_input cfg))))\<rparr>"
  proof (elim disjE conjE)
    assume "select_transport (protocol fl) = GRPC" "grpc_client w (url fl) (verbose fl) = Inr c"
      "get_model_metadata c model_name = Inr md" "get_model_config c model_name = Inr \<lparr>config = cfg\<rparr>"
    then show ?thesis using main_parse_raises_grpc [where r = "\<lparr>config = cfg\<rparr>"] g by simp
  next
    assume "select_transport (protocol fl) = HTTP" "http_client w (url fl) (verbose fl) = Inr c'"
      "get_model_metadata c' model_name = Inr (dict_of_model_metadata md)"
      "get_model_config c' model_name = Inr (dict_of_model_config cfg)"
    then show ?thesis using main_parse_raises_http [OF _ _ _ _ j] by simp
  qed
qed

theorem configuration_inputs_checked_witness:
  "main (ex_flags ''gRPC'' (Some ''images'')) (ex_world (ex_server ex_metadata ((ex_config 8)\<lparr>config_input := []\<rparr>))) =
     \<lparr>stdout = [],
      calls = [CreateClient GRPC ''localhost:8000'' False, GetModelMetadata model_name,
               GetModelConfig model_name],
      outcome = Uncaught (Raised Exception ''expecting 1 input in model configuration, got 0'')\<rparr>"
proof -
  let ?cfg = "(ex_config 8)\<lparr>config_input := []\<rparr>"
  let ?c = "ex_server ex_metadata ?cfg"
  let ?fl = "ex_flags ''gRPC'' (Some ''images'')" and ?w = "ex_world (ex_server ex_metadata ?cfg)"
  have a: "length (inputs ex_metadata) = 1 \<and> length (outputs ex_metadata) = 1
      \<and> length (config_input ?cfg) \<noteq> 1"
    by (simp add: ex_metadata_def)
  have b: "select_transport (protocol ?fl) = GRPC \<and> grpc_client ?w (url ?fl) (verbose ?fl) = Inr ?c
            \<and> get_model_metadata ?c model_name = Inr ex_metadata
            \<and> get_model_config ?c model_name = Inr \<lparr>config = ?cfg\<rparr>
          \<or> select_transport (protocol ?fl) = HTTP \<and> http_client ?w (url ?fl) (verbose ?fl) = Inr (http_view ?c)
            \<and> get_model_metadata (http_view ?c) model_name = Inr (dict_of_model_metadata ex_metadata)
            \<and> get_model_config (http_view ?c) model_name = Inr (dict_of_model_config ?cfg)"
    by (simp only: ex_flags_transport ex_world_grpc ex_server_fetch) simp
  have "main ?fl ?w =
      \<lparr>stdout = [], calls = setup_calls (select_transport (protocol ?fl)) ?fl,
       outcome = Uncaught (Raised Exception
         (''expecting 1 input in model configuration, got '' @ str_nat (length (config_input ?cfg))))\<rparr>"
    using a b configuration_inputs_checked [where md = ex_metadata and cfg = ?cfg and fl = ?fl
        and w = ?w and c = ?c and c' = "http_view ?c"]
    by blast
  then show ?thesis
    by (simp only: ex_flags_transport ex_setup_calls) (simp add: str_nat_0)
qed

subsection \<open>Protocol selection\<close>








subsection \<open>A run without an image path\<close>

lemma handshake_Inl_outcome:
  "handshake t created parse fl = Inl r \<Longrightarrow> outcome r = Exit 1 \<or> (\<exists>e. outcome r = Uncaught e)"
  by (auto simp add: handshake_def split: sum.splits if_splits prod.splits)

lemma connect_Inl_outcome:
  "connect fl w = Inl r \<Longrightarrow> outcome r = Exit 1 \<or> (\<exists>e. outcome r = Uncaught e)"
  by (cases "select_transport (protocol fl)")
    (auto simp add: connect_def dest: handshake_Inl_outcome)




subsection \<open>Post-processing\<close>

lemma class_fields_error:
  "class_fields dt x = Inl e \<Longrightarrow> class_of e = TypeError"
  by (auto simp add: class_fields_def split: if_splits element.splits)

lemma format_class_error:
  "format_class cls = Inl e \<Longrightarrow> class_of e = IndexError"
  by (auto simp add: format_class_def split: if_splits)

lemma print_results_error:
  "print_results dt xs = (ls, Inl e) \<Longrightarrow> class_of e = TypeError \<or> class_of e = IndexError"
proof (induction xs arbitrary: ls)
  case Nil
  then show ?case by simp
next
  case (Cons x xs)
  show ?case
  proof (cases "class_fields dt x")
    case (Inl e')
    with Cons.prems show ?thesis
      by (auto simp add: and_then_def dest: class_fields_error)
  next
    case cf: (Inr cls)
    show ?thesis
    proof (cases "format_class cls")
      case (Inl e')
      with Cons.prems cf show ?thesis
        by (auto simp add: and_then_def dest: format_class_error)
    next
      case (Inr line)
      with Cons.prems cf obtain ls' where "print_results dt xs = (ls', Inl e)"
        by (auto simp add: and_then_def split: prod.splits)
      then show ?thesis by (rule Cons.IH)
    qed
  qed
qed

lemma print_images_error:
  "print_images dt rs = (ls, Inl e) \<Longrightarrow> class_of e = TypeError \<or> class_of e = IndexError"
proof (induction rs arbitrary: ls)
  case Nil
  then show ?case by simp
next
  case (Cons r rs)
  obtain l x where p: "print_results dt r = (l, x)" by (cases "print_results dt r") auto
  show ?case
  proof (cases x)
    case (Inl e')
    with Cons.prems p have "e' = e" by simp
    with p Inl show ?thesis using print_results_error by blast
  next
    case (Inr u)
    with Cons.prems p obtain ls' where "print_images dt rs = (ls', Inl e)"
      by (auto split: prod.splits)
    then show ?thesis by (rule Cons.IH)
  qed
qed

lemma main_after_assemble:
  assumes "connect fl w = Inr (ic, i, out, b)"
    and "list_filenames w (image_filename fl) = Inr fns"
    and "choose_batch_size (length fns) b = Inr (bs, warned)"
    and "assemble w fns bs = (opened, Inr (names, batch))"
  shows "main fl w =
     (case ic model_name (make_inputs (select_transport (protocol fl)) i batch)
             (make_outputs (select_transport (protocol fl)) out (classes fl)) of
        Inl e \<Rightarrow>
          \<lparr>stdout = warned,
           calls = setup_calls (select_transport (protocol fl)) fl @ opened
             @ [Infer model_name (make_inputs (select_transport (protocol fl)) i batch)
                  (make_outputs (select_transport (protocol fl)) out (classes fl))],
           outcome = Uncaught e\<rparr>
      | Inr result \<Rightarrow>
          (case postprocess result out names bs of
             (lines, Inl e) \<Rightarrow>
               \<lparr>stdout = warned @ lines,
                calls = setup_calls (select_transport (protocol fl)) fl @ opened
                  @ [Infer model_name (make_inputs (select_transport (protocol fl)) i batch)
                       (make_outputs (select_transport (protocol fl)) out (classes fl))],
                outcome = Uncaught e\<rparr>
           | (lines, Inr u) \<Rightarrow>
               \<lparr>stdout = warned @ lines @ [''PASS''],
                calls = setup_calls (select_transport (protocol fl)) fl @ opened
                  @ [Infer model_name (make_inputs (select_transport (protocol fl)) i batch)
                       (make_outputs (select_transport (protocol fl)) out (classes fl))],
                outcome = Exit 0\<rparr>))"
  by (simp add: main_connect_Inr [OF assms(1)] classify_def assms(2,3,4) Let_def
      split: sum.splits prod.splits)

lemma assemble_batch_size:
  assumes "assemble w fns bs = (opened, Inr (names, batch))"
  shows "bs = int (length batch)"
  using assemble_length [OF assms] by (cases "0 \<le> bs") auto

lemma str_int_nat: "str_int (int n) = str_nat n"
  by (simp add: str_int_def)

text \<open>
  Claim C4. When the output array of a response has a length other than the batch
  size, post-processing prints nothing and raises the exception that names both
  numbers; when the lengths agree it never raises an exception of that class. The
  function takes no protocol: in a run over either transport, a response with a row
  count other than the number of images sent ends the run with that exception
  uncaught, and nothing of the response is printed.
\<close>

theorem result_count_checked:
  "(as_numpy results output_name = Some output_array
      \<and> int (length (rows output_array)) \<noteq> batch_size \<longrightarrow>
      postprocess results output_name filenames batch_size =
        ([], Inl (Raised Exception
           (''expected '' @ str_int batch_size @ '' results, got ''
              @ str_nat (length (rows output_array))))))
   \<and> (as_numpy results output_name = Some output_array
      \<and> int (length (rows output_array)) = batch_size \<longrightarrow>
      (\<forall>lines msg. postprocess results output_name filenames batch_size
          \<noteq> (lines, Inl (Raised Exception msg))))
   \<and> (connect fl w = Inr (infer_call, input_name, output_name, declared)
      \<and> list_filenames w (image_filename fl) = Inr fns
      \<and> choose_batch_size (length fns) declared = Inr (bs, warned)
      \<and> assemble w fns bs = (opened, Inr (names, batch))
      \<and> infer_call model_name (make_inputs (select_transport (protocol fl)) input_name batch)
            (make_outputs (select_transport (protocol fl)) output_name (classes fl)) = Inr results
      \<and> as_numpy results output_name = Some output_array
      \<and> length (rows output_array) \<noteq> length batch \<longrightarrow>
      stdout (main fl w) = warned
      \<and> outcome (main fl w) =
          Uncaught (Raised Exception
            (''expected '' @ str_nat (length batch) @ '' results, got ''
               @ str_nat (length (rows output_array)))))"
proof (intro conjI impI allI)
  assume "as_numpy results output_name = Some output_array
      \<and> int (length (rows output_array)) \<noteq> batch_size"
  then show "postprocess results output_name filenames batch_size =
        ([], Inl (Raised Exception
           (''expected '' @ str_int batch_size @ '' results, got ''
              @ str_nat (length (rows output_array)))))"
    by (simp add: postprocess_def)
next
  fix lines msg
  assume "as_numpy results output_name = Some output_array
      \<and> int (length (rows output_array)) = batch_size"
  then have "postprocess results output_name filenames batch_size
      = print_images (dtype output_array) (rows output_array)"
    by (simp add: postprocess_def)
  moreover have "print_images (dtype output_array) (rows output_array)
      \<noteq> (lines, Inl (Raised Exception msg))"
    using print_images_error [of "dtype output_array" "rows output_array" lines "Raised Exception msg"]
    by auto
  ultimately show "postprocess results output_name filenames batch_size
          \<noteq> (lines, Inl (Raised Exception msg))"
    by simp
next
  assume h: "connect fl w = Inr (infer_call, input_name, output_name, declared)
      \<and> list_filenames w (image_filename fl) = Inr fns
      \<and> choose_batch_size (length fns) declared = Inr (bs, warned)
      \<and> assemble w fns bs = (opened, Inr (names, batch))
      \<and> infer_call model_name (make_inputs (select_transport (protocol fl)) input_name batch)
            (make_outputs (select_transport (protocol fl)) output_name (classes fl)) = Inr results
      \<and> as_numpy results output_name = Some output_array
      \<and> length (rows output_array) \<noteq> length batch"
  then have bs: "bs = int (length batch)" using assemble_batch_size by blast
  have pp: "postprocess results output_name names bs =
      ([], Inl (Raised Exception
           (''expected '' @ str_nat (length batch) @ '' results, got ''
              @ str_nat (length (rows output_array)))))"
    using h by (simp add: postprocess_def bs str_int_nat)
  have m: "main fl w =
      (case infer_call model_name (make_inputs (select_transport (protocol fl)) input_name batch)
             (make_outputs (select_transport (protocol fl)) output_name (classes fl)) of
        Inl e \<Rightarrow>
          \<lparr>stdout = warned,
           calls = setup_calls (select_transport (protocol fl)) fl @ opened
             @ [Infer model_name (make_inputs (select_transport (protocol fl)) input_name batch)
                  (make_outputs (select_transport (protocol fl)) output_name (classes fl))],
           outcome = Uncaught e\<rparr>
      | Inr result \<Rightarrow>
          (case postprocess result output_name names bs of
             (lines, Inl e) \<Rightarrow>
               \<lparr>stdout = warned @ lines,
                calls = setup_calls (select_transport (protocol fl)) fl @ opened
                  @ [Infer model_name (make_inputs (select_transport (protocol fl)) input_name batch)
                       (make_outputs (select_transport (protocol fl)) output_name (classes fl))],
                outcome = Uncaught e\<rparr>
           | (lines, Inr u) \<Rightarrow>
               \<lparr>stdout = warned @ lines @ [''PASS''],
                calls = setup_calls (select_transport (protocol fl)) fl @ opened
                  @ [Infer model_name (make_inputs (select_transport (protocol fl)) input_name batch)
                       (make_outputs (select_transport (protocol fl)) output_name (classes fl))],
                outcome = Exit 0\<rparr>))"
    using h by (intro main_after_assemble) auto
  show "stdout (main fl w) = warned" using h by (simp add: m pp)
  show "outcome (main fl w) =
          Uncaught (Raised Exception
            (''expected '' @ str_nat (length batch) @ '' results, got ''
               @ str_nat (length (rows output_array))))"
    using h by (simp add: m pp)
qed


lemma str_nat_digits:
  "str_nat 1 = ''1''" "str_nat 2 = ''2''" "str_nat (Suc 0) = ''1''"
  "str_nat (Suc (Suc 0)) = ''2''" "str_int 1 = ''1''"
  by (simp_all add: str_int_def str_nat.simps digit_char_def)

lemma connect_grpc_parsed:
  assumes "select_transport (protocol fl) = GRPC" "grpc_client w (url fl) (verbose fl) = Inr c"
    "get_model_metadata c model_name = Inr md" "get_model_config c model_name = Inr r"
    "parse_model_grpc md (config r) = Inr (i, out, b)"
  shows "connect fl w = Inr (infer c, JStr i, JStr out, JInt b)"
  using assms by (simp add: connect_def handshake_fetched [OF assms(3,4)] triple_values_def)

lemma ex_filenames:
  "list_filenames (ex_world c) (Some ''images'') = Inr [''images/cat.jpg'', ''images/dog.jpg'']"
proof -
  have "list_filenames (ex_world c) (Some ''images'') =
      Inr (map (join ''images'')
        (sort [f\<leftarrow>[''dog.jpg'', ''cat.jpg'', ''sub'']. isfile (ex_world c) (join ''images'' f)]))"
    by (rule list_filenames_dir) (simp_all add: ex_world_def)
  then show ?thesis by (simp only: ex_regular ex_sorted)
qed

lemma ex_assemble:
  "assemble (ex_world c) [''images/cat.jpg'', ''images/dog.jpg''] 2 =
     ([OpenFile ''images/cat.jpg'', OpenFile ''images/dog.jpg''],
      Inr ([''images/cat.jpg'', ''images/dog.jpg''], [[3], [1, 2]]))"
proof -
  have "assemble (ex_world c) [''images/cat.jpg'', ''images/dog.jpg''] (int 2) =
     (map OpenFile (take 2 [''images/cat.jpg'', ''images/dog.jpg'']),
      if (2::nat) = 0 then Inl (Raised ValueError ''need at least one array to stack'')
      else Inr (take 2 [''images/cat.jpg'', ''images/dog.jpg''], map np_array [[3], [1, 2]]))"
    by (rule assemble_all) (simp_all add: ex_world_def)
  then show ?thesis by (simp add: np_array_def)
qed

theorem result_count_checked_witness:
  "postprocess (ex_result []) (JStr ''OUTPUT'') [''images/cat.jpg''] 1 =
     ([], Inl (Raised Exception ''expected 1 results, got 0''))
   \<and> (\<forall>lines msg. postprocess (ex_result []) (JStr ''OUTPUT'') [] 0
         \<noteq> (lines, Inl (Raised Exception msg)))
   \<and> stdout (main (ex_flags ''gRPC'' (Some ''images'')) (ex_world ex_empty_reply)) = []
   \<and> outcome (main (ex_flags ''gRPC'' (Some ''images'')) (ex_world ex_empty_reply)) =
       Uncaught (Raised Exception ''expected 2 results, got 0'')"
proof -
  let ?arr = "\<lparr>dtype = np_bytes, rows = []\<rparr>"
  have arr: "as_numpy (ex_result []) (JStr ''OUTPUT'') = Some ?arr"
    by (simp add: ex_result_def)
  have "as_numpy (ex_result []) (JStr ''OUTPUT'') = Some ?arr \<and> int (length (rows ?arr)) \<noteq> 1"
    using arr by simp
  then have "postprocess (ex_result []) (JStr ''OUTPUT'') [''images/cat.jpg''] 1 =
      ([], Inl (Raised Exception
         (''expected '' @ str_int 1 @ '' results, got '' @ str_nat (length (rows ?arr)))))"
    using result_count_checked [where results = "ex_result []" and output_array = ?arr
        and batch_size = 1 and output_name = "JStr ''OUTPUT''"]
    by blast
  then have 1: "postprocess (ex_result []) (JStr ''OUTPUT'') [''images/cat.jpg''] 1 =
      ([], Inl (Raised Exception ''expected 1 results, got 0''))"
    by (simp add: str_nat_digits str_nat_0)
  have "as_numpy (ex_result []) (JStr ''OUTPUT'') = Some ?arr \<and> int (length (rows ?arr)) = 0"
    using arr by simp
  then have 2: "\<forall>lines msg. postprocess (ex_result []) (JStr ''OUTPUT'') [] 0
      \<noteq> (lines, Inl (Raised Exception msg))"
    using result_count_checked [where results = "ex_result []" and output_array = ?arr
        and batch_size = 0 and output_name = "JStr ''OUTPUT''" and filenames = "[]"]
    by blast
  let ?fl = "ex_flags ''gRPC'' (Some ''images'')" and ?w = "ex_world ex_empty_reply"
  let ?fns = "[''images/cat.jpg'', ''images/dog.jpg'']"
  have "connect ?fl ?w = Inr (infer ex_empty_reply, JStr ''INPUT'', JStr ''OUTPUT'', JInt 8)"
    by (rule connect_grpc_parsed [where md = ex_metadata and r = "\<lparr>config = ex_config 8\<rparr>"])
      (simp_all add: ex_flags_transport ex_world_grpc ex_empty_reply_def ex_server_def ex_parse)
  moreover have "list_filenames ?w (image_filename ?fl) = Inr ?fns"
    by (simp add: ex_flags_def ex_filenames)
  moreover have "choose_batch_size (length ?fns) (JInt 8) = Inr (2, [])"
    by (simp add: choose_batch_size_def)
  moreover have "assemble ?w ?fns 2 = ([OpenFile ''images/cat.jpg'', OpenFile ''images/dog.jpg''],
      Inr (?fns, [[3], [1, 2]]))"
    by (rule ex_assemble)
  moreover have "infer ex_empty_reply model_name
      (make_inputs (select_transport (protocol ?fl)) (JStr ''INPUT'') [[3], [1, 2]])
      (make_outputs (select_transport (protocol ?fl)) (JStr ''OUTPUT'') (classes ?fl)) = Inr (ex_result [])"
    by (simp add: ex_empty_reply_def)
  moreover have "length (rows ?arr) \<noteq> length [[3], [1, 2 :: byte]]" by simp
  ultimately have "stdout (main ?fl ?w) = []
      \<and> outcome (main ?fl ?w) =
          Uncaught (Raised Exception
            (''expected '' @ str_nat (length [[3], [1, 2 :: byte]]) @ '' results, got ''
               @ str_nat (length (rows ?arr))))"
    using arr result_count_checked [where fl = ?fl and w = ?w and results = "ex_result []"
        and output_array = ?arr and batch = "[[3], [1, 2]]" and fns = ?fns
        and output_name = "JStr ''OUTPUT''" and declared = "JInt 8" and bs = 2 and warned = "[]"]
    by blast
  then have 3: "stdout (main ?fl ?w) = []
      \<and> outcome (main ?fl ?w) = Uncaught (Raised Exception ''expected 2 results, got 0'')"
    by (simp add: str_nat_digits str_nat_0)
  from 1 2 3 show ?thesis by blast
qed

lemma chr_ord: "chr (ord c) = c"
  by (simp add: chr_def ord_def unat_of_nat)

lemma decode_encode: "map chr (encode s) = s"
  by (simp add: encode_def chr_ord comp_def)

lemma split_no_separator: "sep \<notin> set s \<Longrightarrow> split sep s = [s]"
  by (induction s) auto

lemma split_at_separator: "sep \<notin> set a \<Longrightarrow> split sep (a @ sep # rest) = a # split sep rest"
  by (induction a) auto

lemma split_triple:
  assumes "CHR '':'' \<notin> set i" "CHR '':'' \<notin> set s" "CHR '':'' \<notin> set l"
  shows "split CHR '':'' (i @ CHR '':'' # s @ CHR '':'' # l) = [i, s, l]"
  using assms by (simp add: split_at_separator split_no_separator)

lemma class_result_line:
  "colon_free t \<Longrightarrow>
   and_then (class_fields np_bytes (class_result t)) format_class = Inr (class_line t)"
  by (cases t)
    (simp add: colon_free_def class_result_def class_fields_def decode_encode split_triple
      and_then_def format_class_def class_line_def)

lemma print_results_well_formed:
  "list_all colon_free row \<Longrightarrow>
   print_results np_bytes (map class_result row) = (map class_line row, Inr ())"
  by (induction row) (simp_all add: class_result_line)

lemma print_images_well_formed:
  "list_all (list_all colon_free) triples \<Longrightarrow>
   print_images np_bytes (map (map class_result) triples) = (map class_line (concat triples), Inr ())"
  by (induction triples) (simp_all add: print_results_well_formed)

text \<open>
  Claim C5. For a bytes-typed output array with one row per image sent, whose
  elements are the bytes of \<^verbatim>\<open>id:score:label\<close> with no further colon, post-processing
  decodes every element, splits it at the colons and prints, for each class result of
  each image in order, the line \<^verbatim>\<open>    id (score) = label\<close> (indented by four
  spaces), and raises nothing.
\<close>

theorem class_results_printed:
  "(as_numpy results output_name = Some \<lparr>dtype = np_bytes, rows = map (map class_result) triples\<rparr>
     \<and> int (length triples) = batch_size
     \<and> list_all (list_all colon_free) triples
    \<longrightarrow> postprocess results output_name filenames batch_size
          = (map class_line (concat triples), Inr ()))
   \<and> class_fields np_bytes (class_result (i, s, l)) = Inr (split CHR '':'' (i @ '':'' @ s @ '':'' @ l))
   \<and> (colon_free (i, s, l) \<longrightarrow> split CHR '':'' (i @ '':'' @ s @ '':'' @ l) = [i, s, l])
   \<and> class_line (i, s, l) = ''    '' @ i @ '' ('' @ s @ '') = '' @ l"
proof (intro impI conjI)
  assume "as_numpy results output_name = Some \<lparr>dtype = np_bytes, rows = map (map class_result) triples\<rparr>
     \<and> int (length triples) = batch_size
     \<and> list_all (list_all colon_free) triples"
  then show "postprocess results output_name filenames batch_size
         = (map class_line (concat triples), Inr ())"
    by (auto simp add: postprocess_def print_images_well_formed)
next
  show "class_fields np_bytes (class_result (i, s, l)) = Inr (split CHR '':'' (i @ '':'' @ s @ '':'' @ l))"
    by (simp add: class_fields_def class_result_def decode_encode)
  show "class_line (i, s, l) = ''    '' @ i @ '' ('' @ s @ '') = '' @ l"
    by (simp add: class_line_def)
next
  assume "colon_free (i, s, l)"
  then show "split CHR '':'' (i @ '':'' @ s @ '':'' @ l) = [i, s, l]"
    by (simp add: colon_free_def split_triple)
qed

theorem class_results_printed_witness:
  "postprocess (ex_result (make_inputs HTTP (JStr ''INPUT'') [[3], [1, 2]])) (JStr ''OUTPUT'')
       [''images/cat.jpg'', ''images/dog.jpg''] 2
     = ([''    0.9 (281) = TABBY'', ''    0.9 (281) = TABBY''], Inr ())
   \<and> split CHR '':'' ''0.9:281:TABBY'' = [''0.9'', ''281'', ''TABBY'']"
proof -
  let ?r = "ex_result (make_inputs HTTP (JStr ''INPUT'') [[3], [1, 2]])"
  let ?t = "[[(''0.9'', ''281'', ''TABBY'')], [(''0.9'', ''281'', ''TABBY'')]]"
  have c: "colon_free (''0.9'', ''281'', ''TABBY'')" by (simp add: colon_free_def)
  have "as_numpy ?r (JStr ''OUTPUT'') = Some \<lparr>dtype = np_bytes, rows = map (map class_result) ?t\<rparr>
     \<and> int (length ?t) = 2 \<and> list_all (list_all colon_free) ?t"
    using c by (simp add: ex_result_def make_inputs_def)
  then have "postprocess ?r (JStr ''OUTPUT'') [''images/cat.jpg'', ''images/dog.jpg''] 2
         = (map class_line (concat ?t), Inr ())
      \<and> (colon_free (''0.9'', ''281'', ''TABBY'') \<longrightarrow>
            split CHR '':'' (''0.9'' @ '':'' @ ''281'' @ '':'' @ ''TABBY'') = [''0.9'', ''281'', ''TABBY''])"
    using class_results_printed [where results = ?r and triples = ?t and batch_size = 2
        and output_name = "JStr ''OUTPUT''" and i = "''0.9''" and s = "''281''" and l = "''TABBY''"]
    by blast
  with c show ?thesis by (simp add: class_line_def)
qed

subsection \<open>How a run ends\<close>

lemma handshake_creation_error:
  "creation_error created = Some e \<Longrightarrow>
   handshake t created parse fl =
     Inl \<lparr>stdout = [''client creation failed: '' @ str_exn e],
          calls = [CreateClient t (url fl) (verbose fl)], outcome = Exit 1\<rparr>"
  by (auto simp add: creation_error_def handshake_def split: sum.splits)

lemma handshake_metadata_error:
  "metadata_error created = Some e \<Longrightarrow>
   handshake t created parse fl =
     Inl (if class_of e = InferenceServerException then
            \<lparr>stdout = [''failed to retrieve the metadata: '' @ str_exn e],
             calls = [CreateClient t (url fl) (verbose fl), GetModelMetadata model_name],
             outcome = Exit 1\<rparr>
          else
            \<lparr>stdout = [],
             calls = [CreateClient t (url fl) (verbose fl), GetModelMetadata model_name],
             outcome = Uncaught e\<rparr>)"
  by (auto simp add: metadata_error_def handshake_def split: sum.splits)

lemma handshake_config_error:
  "config_error created = Some e \<Longrightarrow>
   handshake t created parse fl =
     Inl (if class_of e = InferenceServerException then
            \<lparr>stdout = [''failed to retrieve the config: '' @ str_exn e],
             calls = setup_calls t fl, outcome = Exit 1\<rparr>
          else \<lparr>stdout = [], calls = setup_calls t fl, outcome = Uncaught e\<rparr>)"
  by (auto simp add: config_error_def handshake_def split: sum.splits)

lemma handshake_Inr_no_error:
  "handshake t created parse fl = Inr x \<Longrightarrow>
   creation_error created = None \<and> metadata_error created = None \<and> config_error created = None"
  by (auto simp add: handshake_def creation_error_def metadata_error_def config_error_def
      split: sum.splits if_splits prod.splits)

lemma handshake_Exit_1:
  "(\<exists>r. handshake t created parse fl = Inl r \<and> outcome r = Exit 1) \<longleftrightarrow>
     creation_error created \<noteq> None
     \<or> (\<exists>e. metadata_error created = Some e \<and> class_of e = InferenceServerException)
     \<or> (\<exists>e. config_error created = Some e \<and> class_of e = InferenceServerException)"
  by (auto simp add: handshake_def creation_error_def metadata_error_def config_error_def
      split: sum.splits if_splits prod.splits)

lemma classify_outcome:
  "outcome (classify t ic fl w i out b) = Exit 0 \<or> (\<exists>e. outcome (classify t ic fl w i out b) = Uncaught e)"
  by (auto simp add: classify_def Let_def split: sum.splits prod.splits)

lemma classify_Exit_0:
  "outcome (classify t ic fl w i out b) = Exit 0 \<longleftrightarrow>
     (\<exists>fns bs warned opened names batch results lines.
        list_filenames w (image_filename fl) = Inr fns
        \<and> choose_batch_size (length fns) b = Inr (bs, warned)
        \<and> assemble w fns bs = (opened, Inr (names, batch))
        \<and> ic model_name (make_inputs t i batch) (make_outputs t out (classes fl)) = Inr results
        \<and> postprocess results out names bs = (lines, Inr ()))"
  by (auto simp add: classify_def Let_def split: sum.splits prod.splits)

lemma classify_PASS:
  "outcome (classify t ic fl w i out b) = Exit 0 \<Longrightarrow>
   stdout (classify t ic fl w i out b) \<noteq> [] \<and> last (stdout (classify t ic fl w i out b)) = ''PASS''"
  by (auto simp add: classify_def Let_def split: sum.splits prod.splits)

lemma main_Exit_0:
  "outcome (main fl w) = Exit 0 \<longleftrightarrow>
     (\<exists>ic i out b. connect fl w = Inr (ic, i, out, b)
        \<and> outcome (classify (select_transport (protocol fl)) ic fl w i out b) = Exit 0)"
proof (cases "connect fl w")
  case (Inl r)
  with connect_Inl_outcome [OF Inl] show ?thesis by (auto simp add: main_connect_Inl)
next
  case (Inr x)
  then obtain ic i out b where "connect fl w = Inr (ic, i, out, b)" by (cases x) auto
  then show ?thesis by (simp add: main_connect_Inr)
qed

lemma main_Exit_1:
  "outcome (main fl w) = Exit 1 \<longleftrightarrow> (\<exists>r. connect fl w = Inl r \<and> outcome r = Exit 1)"
proof (cases "connect fl w")
  case (Inl r)
  then show ?thesis by (simp add: main_connect_Inl)
next
  case (Inr x)
  then obtain ic i out b where c: "connect fl w = Inr (ic, i, out, b)" by (cases x) auto
  with classify_outcome [of "select_transport (protocol fl)" ic fl w i out b]
  show ?thesis by (auto simp add: main_connect_Inr)
qed

lemma connect_Exit_1:
  "(\<exists>r. connect fl w = Inl r \<and> outcome r = Exit 1) \<longleftrightarrow>
     client_creation_error fl w \<noteq> None
     \<or> (\<exists>e. metadata_fetch_error fl w = Some e \<and> class_of e = InferenceServerException)
     \<or> (\<exists>e. config_fetch_error fl w = Some e \<and> class_of e = InferenceServerException)"
  by (cases "select_transport (protocol fl)")
    (simp_all add: connect_def client_creation_error_def metadata_fetch_error_def
      config_fetch_error_def handshake_Exit_1)

lemma connect_creation_error:
  "client_creation_error fl w = Some e \<Longrightarrow>
   connect fl w =
     Inl \<lparr>stdout = [''client creation failed: '' @ str_exn e],
          calls = [CreateClient (select_transport (protocol fl)) (url fl) (verbose fl)],
          outcome = Exit 1\<rparr>"
  by (cases "select_transport (protocol fl)")
    (simp_all add: connect_def client_creation_error_def handshake_creation_error)

lemma connect_metadata_error:
  "metadata_fetch_error fl w = Some e \<Longrightarrow>
   connect fl w =
     Inl (if class_of e = InferenceServerException then
            \<lparr>stdout = [''failed to retrieve the metadata: '' @ str_exn e],
             calls = [CreateClient (select_transport (protocol fl)) (url fl) (verbose fl),
                      GetModelMetadata model_name],
             outcome = Exit 1\<rparr>
          else
            \<lparr>stdout = [],
             calls = [CreateClient (select_transport (protocol fl)) (url fl) (verbose fl),
                      GetModelMetadata model_name],
             outcome = Uncaught e\<rparr>)"
  by (cases "select_transport (protocol fl)")
    (simp_all add: connect_def metadata_fetch_error_def handshake_metadata_error)

lemma connect_config_error:
  "config_fetch_error fl w = Some e \<Longrightarrow>
   connect fl w =
     Inl (if class_of e = InferenceServerException then
            \<lparr>stdout = [''failed to retrieve the config: '' @ str_exn e],
             calls = setup_calls (select_transport (protocol fl)) fl, outcome = Exit 1\<rparr>
          else
            \<lparr>stdout = [], calls = setup_calls (select_transport (protocol fl)) fl,
             outcome = Uncaught e\<rparr>)"
  by (cases "select_transport (protocol fl)")
    (simp_all add: connect_def config_fetch_error_def handshake_config_error)

lemma connect_Inr_no_error:
  "connect fl w = Inr x \<Longrightarrow>
   client_creation_error fl w = None \<and> metadata_fetch_error fl w = None
     \<and> config_fetch_error fl w = None"
  by (cases "select_transport (protocol fl)")
    (auto simp add: connect_def client_creation_error_def metadata_fetch_error_def
      config_fetch_error_def dest: handshake_Inr_no_error)


lemma ex_postprocess:
  "postprocess (ex_result (make_inputs t i [[3], [1, 2]])) out names 2 =
     ([''    0.9 (281) = TABBY'', ''    0.9 (281) = TABBY''], Inr ())"
proof -
  let ?t = "[[(''0.9'', ''281'', ''TABBY'')], [(''0.9'', ''281'', ''TABBY'')]]"
  have "list_all (list_all colon_free) ?t" by (simp add: colon_free_def)
  then have "print_images np_bytes (map (map class_result) ?t) = (map class_line (concat ?t), Inr ())"
    by (rule print_images_well_formed)
  then show ?thesis
    by (simp add: postprocess_def ex_result_def make_inputs_def class_line_def)
qed

lemma ex_errors:
  "client_creation_error (ex_flags ''gRPC'' f) (ex_no_client e) = Some e"
  "metadata_fetch_error (ex_flags ''gRPC'' f) (ex_world (ex_no_metadata e)) = Some e"
  "config_fetch_error (ex_flags ''gRPC'' f) (ex_world (ex_no_config e)) = Some e"
  by (simp_all add: client_creation_error_def metadata_fetch_error_def config_fetch_error_def
      ex_flags_transport ex_no_client_def ex_world_def ex_no_metadata_def ex_no_config_def
      ex_server_def creation_error_def metadata_error_def config_error_def)

text \<open>
  Claim C6, as amended. A run ends with status 0 exactly when every stage returns:
  connecting (client creation, both fetches, model parsing), listing the files,
  choosing the batch size, assembling the batch, the inference call and
  post-processing; its last line is then \<^verbatim>\<open>PASS\<close>. It ends through
  \<^verbatim>\<open>sys.exit(1)\<close> exactly when client creation raises, or the metadata fetch or the
  configuration fetch raises an \<^verbatim>\<open>InferenceServerException\<close>; the one line printed is
  then the diagnostic of that step. A fetch that raises an exception of another class
  is not caught: nothing is printed and the exception ends the run.
\<close>

theorem run_exit:
  "(outcome (main fl w) = Exit 0 \<longleftrightarrow>
      (\<exists>ic i out b fns bs warned opened names batch results lines.
         connect fl w = Inr (ic, i, out, b)
         \<and> list_filenames w (image_filename fl) = Inr fns
         \<and> choose_batch_size (length fns) b = Inr (bs, warned)
         \<and> assemble w fns bs = (opened, Inr (names, batch))
         \<and> ic model_name (make_inputs (select_transport (protocol fl)) i batch)
              (make_outputs (select_transport (protocol fl)) out (classes fl)) = Inr results
         \<and> postprocess results out names bs = (lines, Inr ())))
   \<and> (outcome (main fl w) = Exit 0 \<longrightarrow>
        stdout (main fl w) \<noteq> [] \<and> last (stdout (main fl w)) = ''PASS'')
   \<and> ((\<exists>x. connect fl w = Inr x) \<longrightarrow>
        client_creation_error fl w = None \<and> metadata_fetch_error fl w = None
        \<and> config_fetch_error fl w = None)
   \<and> (outcome (main fl w) = Exit 1 \<longleftrightarrow>
        client_creation_error fl w \<noteq> None
        \<or> (\<exists>e. metadata_fetch_error fl w = Some e \<and> class_of e = InferenceServerException)
        \<or> (\<exists>e. config_fetch_error fl w = Some e \<and> class_of e = InferenceServerException))
   \<and> (client_creation_error fl w = Some e \<longrightarrow>
        stdout (main fl w) = [''client creation failed: '' @ str_exn e])
   \<and> (metadata_fetch_error fl w = Some e \<and> class_of e = InferenceServerException \<longrightarrow>
        stdout (main fl w) = [''failed to retrieve the metadata: '' @ str_exn e])
   \<and> (config_fetch_error fl w = Some e \<and> class_of e = InferenceServerException \<longrightarrow>
        stdout (main fl w) = [''failed to retrieve the config: '' @ str_exn e])
   \<and> ((metadata_fetch_error fl w = Some e \<or> config_fetch_error fl w = Some e)
        \<and> class_of e \<noteq> InferenceServerException \<longrightarrow>
        stdout (main fl w) = [] \<and> outcome (main fl w) = Uncaught e)"
proof (intro conjI impI)
  show "outcome (main fl w) = Exit 0 \<longleftrightarrow>
      (\<exists>ic i out b fns bs warned opened names batch results lines.
         connect fl w = Inr (ic, i, out, b)
         \<and> list_filenames w (image_filename fl) = Inr fns
         \<and> choose_batch_size (length fns) b = Inr (bs, warned)
         \<and> assemble w fns bs = (opened, Inr (names, batch))
         \<and> ic model_name (make_inputs (select_transport (protocol fl)) i batch)
              (make_outputs (select_transport (protocol fl)) out (classes fl)) = Inr results
         \<and> postprocess results out names bs = (lines, Inr ()))"
    unfolding main_Exit_0 classify_Exit_0 by blast
  show "outcome (main fl w) = Exit 1 \<longleftrightarrow>
        client_creation_error fl w \<noteq> None
        \<or> (\<exists>e. metadata_fetch_error fl w = Some e \<and> class_of e = InferenceServerException)
        \<or> (\<exists>e. config_fetch_error fl w = Some e \<and> class_of e = InferenceServerException)"
    unfolding main_Exit_1 by (rule connect_Exit_1)
next
  assume "outcome (main fl w) = Exit 0"
  then obtain ic i out b where c: "connect fl w = Inr (ic, i, out, b)"
    and x: "outcome (classify (select_transport (protocol fl)) ic fl w i out b) = Exit 0"
    unfolding main_Exit_0 by blast
  from classify_PASS [OF x]
  show "stdout (main fl w) \<noteq> []" "last (stdout (main fl w)) = ''PASS''"
    by (simp_all add: main_connect_Inr [OF c])
next
  assume "\<exists>x. connect fl w = Inr x"
  then show "client_creation_error fl w = None" "metadata_fetch_error fl w = None"
    "config_fetch_error fl w = None"
    using connect_Inr_no_error by blast+
next
  assume "client_creation_error fl w = Some e"
  then show "stdout (main fl w) = [''client creation failed: '' @ str_exn e]"
    by (simp add: main_connect_Inl [OF connect_creation_error])
next
  assume "metadata_fetch_error fl w = Some e \<and> class_of e = InferenceServerException"
  then show "stdout (main fl w) = [''failed to retrieve the metadata: '' @ str_exn e]"
    by (simp add: main_connect_Inl [OF connect_metadata_error])
next
  assume "config_fetch_error fl w = Some e \<and> class_of e = InferenceServerException"
  then show "stdout (main fl w) = [''failed to retrieve the config: '' @ str_exn e]"
    by (simp add: main_connect_Inl [OF connect_config_error])
next
  assume h: "(metadata_fetch_error fl w = Some e \<or> config_fetch_error fl w = Some e)
        \<and> class_of e \<noteq> InferenceServerException"
  then have "main fl w = \<lparr>stdout = [], calls = calls (main fl w), outcome = Uncaught e\<rparr>"
    by (auto simp add: main_connect_Inl [OF connect_metadata_error]
        main_connect_Inl [OF connect_config_error])
  then show "stdout (main fl w) = []" "outcome (main fl w) = Uncaught e"
    by (metis run.select_convs(1), metis run.select_convs(3))
qed

theorem run_exit_witness:
  "outcome (main (ex_flags ''gRPC'' (Some ''images'')) (ex_world (ex_server ex_metadata (ex_config 8))))
     = Exit 0
   \<and> config_fetch_error (ex_flags ''gRPC'' (Some ''images''))
        (ex_world (ex_server ex_metadata (ex_config 8))) = None
   \<and> last (stdout (main (ex_flags ''gRPC'' (Some ''images''))
        (ex_world (ex_server ex_metadata (ex_config 8))))) = ''PASS''
   \<and> stdout (main (ex_flags ''gRPC'' (Some ''images'')) (ex_no_client (Raised Exception ''no channel'')))
     = [''client creation failed: no channel'']
   \<and> outcome (main (ex_flags ''gRPC'' (Some ''images'')) (ex_no_client (Raised Exception ''no channel'')))
     = Exit 1
   \<and> stdout (main (ex_flags ''gRPC'' (Some ''images''))
        (ex_world (ex_no_metadata (Raised InferenceServerException ''unknown model''))))
     = [''failed to retrieve the metadata: unknown model'']
   \<and> stdout (main (ex_flags ''gRPC'' (Some ''images''))
        (ex_world (ex_no_config (Raised InferenceServerException ''unknown model''))))
     = [''failed to retrieve the config: unknown model'']
   \<and> outcome (main (ex_flags ''gRPC'' (Some ''images''))
        (ex_world (ex_no_config (Raised OSError ''Connection refused''))))
     = Uncaught (Raised OSError ''Connection refused'')"
proof -
  let ?fl = "ex_flags ''gRPC'' (Some ''images'')"
  let ?w = "ex_world (ex_server ex_metadata (ex_config 8))"
  let ?fns = "[''images/cat.jpg'', ''images/dog.jpg'']"
  let ?ise = "Raised InferenceServerException ''unknown model''"
  let ?ose = "Raised OSError ''Connection refused''"
  let ?exc = "Raised Exception ''no channel''"
  have cn: "connect ?fl ?w = Inr (infer (ex_server ex_metadata (ex_config 8)),
      JStr ''INPUT'', JStr ''OUTPUT'', JInt 8)"
    by (rule ex_connect_grpc)
  then have "\<exists>x. connect ?fl ?w = Inr x" by blast
  then have 0: "config_fetch_error ?fl ?w = None"
    using run_exit [where fl = ?fl and w = ?w] by blast
  note cn
  moreover have "list_filenames ?w (image_filename ?fl) = Inr ?fns"
    by (simp add: ex_flags_def ex_filenames)
  moreover have "choose_batch_size (length ?fns) (JInt 8) = Inr (2, [])"
    by (simp add: choose_batch_size_def)
  moreover have "assemble ?w ?fns 2 = ([OpenFile ''images/cat.jpg'', OpenFile ''images/dog.jpg''],
      Inr (?fns, [[3], [1, 2]]))"
    by (rule ex_assemble)
  moreover have "infer (ex_server ex_metadata (ex_config 8)) model_name
      (make_inputs (select_transport (protocol ?fl)) (JStr ''INPUT'') [[3], [1, 2]])
      (make_outputs (select_transport (protocol ?fl)) (JStr ''OUTPUT'') (classes ?fl))
      = Inr (ex_result (make_inputs (select_transport (protocol ?fl)) (JStr ''INPUT'') [[3], [1, 2]]))"
    by (simp add: ex_server_def)
  moreover have "postprocess
      (ex_result (make_inputs (select_transport (protocol ?fl)) (JStr ''INPUT'') [[3], [1, 2]]))
      (JStr ''OUTPUT'') ?fns 2
      = ([''    0.9 (281) = TABBY'', ''    0.9 (281) = TABBY''], Inr ())"
    by (rule ex_postprocess)
  ultimately have 1: "outcome (main ?fl ?w) = Exit 0"
    using run_exit [where fl = ?fl and w = ?w] by blast
  then have 2: "last (stdout (main ?fl ?w)) = ''PASS''"
    using run_exit [where fl = ?fl and w = ?w] by blast
  have c: "client_creation_error ?fl (ex_no_client ?exc) = Some ?exc" by (rule ex_errors)
  then have "stdout (main ?fl (ex_no_client ?exc)) = [''client creation failed: '' @ str_exn ?exc]"
    using run_exit [where fl = ?fl and w = "ex_no_client ?exc" and e = ?exc] by blast
  then have 3: "stdout (main ?fl (ex_no_client ?exc)) = [''client creation failed: no channel'']"
    by simp
  have "client_creation_error ?fl (ex_no_client ?exc) \<noteq> None" using c by simp
  then have 4: "outcome (main ?fl (ex_no_client ?exc)) = Exit 1"
    using run_exit [where fl = ?fl and w = "ex_no_client ?exc"] by blast
  have "metadata_fetch_error ?fl (ex_world (ex_no_metadata ?ise)) = Some ?ise
      \<and> class_of ?ise = InferenceServerException"
    by (simp add: ex_errors)
  then have "stdout (main ?fl (ex_world (ex_no_metadata ?ise)))
      = [''failed to retrieve the metadata: '' @ str_exn ?ise]"
    using run_exit [where fl = ?fl and w = "ex_world (ex_no_metadata ?ise)" and e = ?ise] by blast
  then have 5: "stdout (main ?fl (ex_world (ex_no_metadata ?ise)))
      = [''failed to retrieve the metadata: unknown model'']"
    by simp
  have "config_fetch_error ?fl (ex_world (ex_no_config ?ise)) = Some ?ise
      \<and> class_of ?ise = InferenceServerException"
    by (simp add: ex_errors)
  then have "stdout (main ?fl (ex_world (ex_no_config ?ise)))
      = [''failed to retrieve the config: '' @ str_exn ?ise]"
    using run_exit [where fl = ?fl and w = "ex_world (ex_no_config ?ise)" and e = ?ise] by blast
  then have 6: "stdout (main ?fl (ex_world (ex_no_config ?ise)))
      = [''failed to retrieve the config: unknown model'']"
    by simp
  have "(metadata_fetch_error ?fl (ex_world (ex_no_config ?ose)) = Some ?ose
        \<or> config_fetch_error ?fl (ex_world (ex_no_config ?ose)) = Some ?ose)
      \<and> class_of ?ose \<noteq> InferenceServerException"
    by (simp add: ex_errors)
  then have 7: "outcome (main ?fl (ex_world (ex_no_config ?ose))) = Uncaught ?ose"
    using run_exit [where fl = ?fl and w = "ex_world (ex_no_config ?ose)" and e = ?ose] by blast
  from 0 1 2 3 4 5 6 7 show ?thesis by blast
qed

text \<open>
  The claim as first stated fails where the metadata fetch raises an exception that is
  not an \<^verbatim>\<open>InferenceServerException\<close>, such as a refused connection: the fetch has
  failed, yet no diagnostic is printed and the run does not end through
  \<^verbatim>\<open>sys.exit(1)\<close>.
\<close>

theorem run_exit_counterexample:
  "metadata_fetch_error (ex_flags ''gRPC'' (Some ''images''))
       (ex_world (ex_no_metadata (Raised OSError ''Connection refused'')))
     = Some (Raised OSError ''Connection refused'')
   \<and> stdout (main (ex_flags ''gRPC'' (Some ''images''))
        (ex_world (ex_no_metadata (Raised OSError ''Connection refused'')))) = []
   \<and> outcome (main (ex_flags ''gRPC'' (Some ''images''))
        (ex_world (ex_no_metadata (Raised OSError ''Connection refused''))))
     = Uncaught (Raised OSError ''Connection refused'')"
proof -
  let ?fl = "ex_flags ''gRPC'' (Some ''images'')"
  let ?e = "Raised OSError ''Connection refused''"
  have m: "metadata_fetch_error ?fl (ex_world (ex_no_metadata ?e)) = Some ?e"
    by (rule ex_errors)
  from connect_metadata_error [OF m] have "main ?fl (ex_world (ex_no_metadata ?e)) =
      \<lparr>stdout = [],
       calls = [CreateClient (select_transport (protocol ?fl)) (url ?fl) (verbose ?fl),
                GetModelMetadata model_name],
       outcome = Uncaught ?e\<rparr>"
    by (simp add: main_def)
  with m show ?thesis by simp
qed

subsection \<open>The two transports\<close>

lemma infer_http_view:
  "infer (http_view c) n (make_inputs HTTP i batch) (make_outputs HTTP out k)
     = infer c n (make_inputs GRPC i batch) (make_outputs GRPC out k)"
  by (simp add: http_view_def make_inputs_def make_outputs_def)

lemma classify_http_view:
  assumes "image_filename fl' = image_filename fl" "classes fl' = classes fl"
  shows "stdout (classify HTTP (infer (http_view c)) fl' w i out b)
           = stdout (classify GRPC (infer c) fl w i out b)
       \<and> outcome (classify HTTP (infer (http_view c)) fl' w i out b)
           = outcome (classify GRPC (infer c) fl w i out b)"
  by (simp add: classify_def assms infer_http_view Let_def split: sum.splits prod.splits)

lemma handshake_http_view:
  "(case (handshake HTTP (map_sum id http_view created) parse_model_http fl',
          handshake GRPC created
            (\<lambda>metadata response.
               map_sum id triple_values (parse_model_grpc metadata (config response))) fl) of
      (Inl r', Inl r) \<Rightarrow> stdout r' = stdout r \<and> outcome r' = outcome r
    | (Inr (ic', x'), Inr (ic, x)) \<Rightarrow> x' = x \<and> (\<exists>c. ic = infer c \<and> ic' = infer (http_view c))
    | _ \<Rightarrow> False)"
proof (cases created)
  case (Inl e)
  then show ?thesis by (simp add: handshake_def)
next
  case c: (Inr c)
  show ?thesis
  proof (cases "get_model_metadata c model_name")
    case (Inl e)
    with c show ?thesis by (simp add: handshake_def http_view_def)
  next
    case md: (Inr md)
    show ?thesis
    proof (cases "get_model_config c model_name")
      case (Inl e)
      with c md show ?thesis by (simp add: handshake_def http_view_def)
    next
      case r: (Inr r)
      have h: "get_model_metadata (http_view c) model_name = Inr (dict_of_model_metadata md)"
        "get_model_config (http_view c) model_name = Inr (dict_of_model_config (config r))"
        using md r by (simp_all add: http_view_def)
      show ?thesis
        unfolding c map_sum.simps handshake_fetched [OF h] handshake_fetched [OF md r]
          parse_model_http_dict
        by (cases "parse_model_grpc md (config r)") auto
    qed
  qed
qed

text \<open>
  Claim C7. The HTTP parser on the dictionaries that carry the values of a metadata
  and a configuration message returns what the gRPC parser returns on the messages
  (the same triple, or the same exception). Post-processing takes no protocol. So for
  the same flags and the same world, in which the HTTP client shows the server the
  gRPC client shows, a run over HTTP and a run over gRPC print the same lines and end
  the same way.
\<close>

theorem protocols_agree:
  "parse_model_http (dict_of_model_metadata md) (dict_of_model_config cfg)
       = map_sum id triple_values (parse_model_grpc md cfg)
   \<and> (select_transport p = GRPC \<and> select_transport q = HTTP
        \<and> http_client w (url fl) (verbose fl)
            = map_sum id http_view (grpc_client w (url fl) (verbose fl))
      \<longrightarrow> stdout (main (fl\<lparr>protocol := q\<rparr>) w) = stdout (main (fl\<lparr>protocol := p\<rparr>) w)
        \<and> outcome (main (fl\<lparr>protocol := q\<rparr>) w) = outcome (main (fl\<lparr>protocol := p\<rparr>) w))"
proof (intro conjI impI)
  show "parse_model_http (dict_of_model_metadata md) (dict_of_model_config cfg)
       = map_sum id triple_values (parse_model_grpc md cfg)"
    by (rule parse_model_http_dict)
next
  let ?fq = "fl\<lparr>protocol := q\<rparr>" and ?fp = "fl\<lparr>protocol := p\<rparr>"
  let ?created = "grpc_client w (url fl) (verbose fl)"
  let ?hq = "handshake HTTP (map_sum id http_view ?created) parse_model_http ?fq"
  let ?hp = "handshake GRPC ?created
            (\<lambda>metadata response.
               map_sum id triple_values (parse_model_grpc metadata (config response))) ?fp"
  assume h: "select_transport p = GRPC \<and> select_transport q = HTTP
        \<and> http_client w (url fl) (verbose fl)
            = map_sum id http_view (grpc_client w (url fl) (verbose fl))"
  then have cq: "connect ?fq w = ?hq" and cp: "connect ?fp w = ?hp"
    by (simp_all add: connect_def)
  have tq: "select_transport (protocol ?fq) = HTTP" and tp: "select_transport (protocol ?fp) = GRPC"
    using h by simp_all
  have rel: "(case (?hq, ?hp) of
      (Inl r', Inl r) \<Rightarrow> stdout r' = stdout r \<and> outcome r' = outcome r
    | (Inr (ic', x'), Inr (ic, x)) \<Rightarrow> x' = x \<and> (\<exists>c. ic = infer c \<and> ic' = infer (http_view c))
    | _ \<Rightarrow> False)"
    by (rule handshake_http_view)
  have "stdout (main ?fq w) = stdout (main ?fp w) \<and> outcome (main ?fq w) = outcome (main ?fp w)"
  proof (cases ?hp)
    case (Inl r)
    with rel obtain r' where r': "?hq = Inl r'" "stdout r' = stdout r" "outcome r' = outcome r"
      by (cases ?hq) auto
    show ?thesis
      using Inl r' by (simp add: main_connect_Inl cq cp)
  next
    case (Inr x)
    then obtain ic i out b where p: "?hp = Inr (ic, i, out, b)" by (cases x) auto
    with rel obtain c where q: "?hq = Inr (infer (http_view c), i, out, b)" and ic: "ic = infer c"
      by (cases ?hq) auto
    have "connect ?fq w = Inr (infer (http_view c), i, out, b)" using q cq by simp
    moreover have "connect ?fp w = Inr (infer c, i, out, b)" using p cp ic by simp
    ultimately show ?thesis
      using classify_http_view [of ?fq ?fp c w i out b] h
      by (simp add: main_connect_Inr)
  qed
  then show "stdout (main ?fq w) = stdout (main ?fp w)"
    and "outcome (main ?fq w) = outcome (main ?fp w)"
    by simp_all
qed

theorem protocols_agree_witness:
  "stdout (main (ex_flags ''HTTP'' (Some ''images'')) (ex_world (ex_server ex_metadata (ex_config 8))))
     = stdout (main (ex_flags ''gRPC'' (Some ''images'')) (ex_world (ex_server ex_metadata (ex_config 8))))
   \<and> outcome (main (ex_flags ''HTTP'' (Some ''images'')) (ex_world (ex_server ex_metadata (ex_config 8))))
     = outcome (main (ex_flags ''gRPC'' (Some ''images'')) (ex_world (ex_server ex_metadata (ex_config 8))))
   \<and> stdout (main (ex_flags ''gRPC'' (Some ''images'')) (ex_world (ex_server ex_metadata (ex_config 8))))
     = [''    0.9 (281) = TABBY'', ''    0.9 (281) = TABBY'', ''PASS'']"
proof -
  let ?w = "ex_world (ex_server ex_metadata (ex_config 8))"
  let ?fl = "ex_flags ''gRPC'' (Some ''images'')"
  let ?fns = "[''images/cat.jpg'', ''images/dog.jpg'']"
  have "select_transport ''gRPC'' = GRPC \<and> select_transport ''HTTP'' = HTTP
      \<and> http_client ?w (url ?fl) (verbose ?fl) = map_sum id http_view (grpc_client ?w (url ?fl) (verbose ?fl))"
    by (simp add: select_transport_gRPC select_transport_HTTP ex_world_def)
  then have "stdout (main (?fl\<lparr>protocol := ''HTTP''\<rparr>) ?w) = stdout (main (?fl\<lparr>protocol := ''gRPC''\<rparr>) ?w)
      \<and> outcome (main (?fl\<lparr>protocol := ''HTTP''\<rparr>) ?w) = outcome (main (?fl\<lparr>protocol := ''gRPC''\<rparr>) ?w)"
    using protocols_agree [where p = "''gRPC''" and q = "''HTTP''" and w = ?w and fl = ?fl]
    by blast
  moreover have "?fl\<lparr>protocol := ''HTTP''\<rparr> = ex_flags ''HTTP'' (Some ''images'')"
    "?fl\<lparr>protocol := ''gRPC''\<rparr> = ?fl"
    by (simp_all add: ex_flags_def)
  ultimately have 1: "stdout (main (ex_flags ''HTTP'' (Some ''images'')) ?w) = stdout (main ?fl ?w)
      \<and> outcome (main (ex_flags ''HTTP'' (Some ''images'')) ?w) = outcome (main ?fl ?w)"
    by simp
  have "main ?fl ?w =
     (case infer (ex_server ex_metadata (ex_config 8)) model_name
             (make_inputs (select_transport (protocol ?fl)) (JStr ''INPUT'') [[3], [1, 2]])
             (make_outputs (select_transport (protocol ?fl)) (JStr ''OUTPUT'') (classes ?fl)) of
        Inl e \<Rightarrow>
          \<lparr>stdout = [],
           calls = setup_calls (select_transport (protocol ?fl)) ?fl
             @ [OpenFile ''images/cat.jpg'', OpenFile ''images/dog.jpg'']
             @ [Infer model_name (make_inputs (select_transport (protocol ?fl)) (JStr ''INPUT'') [[3], [1, 2]])
                  (make_outputs (select_transport (protocol ?fl)) (JStr ''OUTPUT'') (classes ?fl))],
           outcome = Uncaught e\<rparr>
      | Inr result \<Rightarrow>
          (case postprocess result (JStr ''OUTPUT'') ?fns 2 of
             (lines, Inl e) \<Rightarrow>
               \<lparr>stdout = [] @ lines,
                calls = setup_calls (select_transport (protocol ?fl)) ?fl
                  @ [OpenFile ''images/cat.jpg'', OpenFile ''images/dog.jpg'']
                  @ [Infer model_name (make_inputs (select_transport (protocol ?fl)) (JStr ''INPUT'') [[3], [1, 2]])
                       (make_outputs (select_transport (protocol ?fl)) (JStr ''OUTPUT'') (classes ?fl))],
                outcome = Uncaught e\<rparr>
           | (lines, Inr u) \<Rightarrow>
               \<lparr>stdout = [] @ lines @ [''PASS''],
                calls = setup_calls (select_transport (protocol ?fl)) ?fl
                  @ [OpenFile ''images/cat.jpg'', OpenFile ''images/dog.jpg'']
                  @ [Infer model_name (make_inputs (select_transport (protocol ?fl)) (JStr ''INPUT'') [[3], [1, 2]])
                       (make_outputs (select_transport (protocol ?fl)) (JStr ''OUTPUT'') (classes ?fl))],
                outcome = Exit 0\<rparr>))"
  proof (rule main_after_assemble [where b = "JInt 8" and fns = ?fns])
    show "connect ?fl ?w = Inr (infer (ex_server ex_metadata (ex_config 8)),
        JStr ''INPUT'', JStr ''OUTPUT'', JInt 8)"
      by (rule ex_connect_grpc)
    show "list_filenames ?w (image_filename ?fl) = Inr ?fns"
      by (simp add: ex_flags_def ex_filenames)
    show "choose_batch_size (length ?fns) (JInt 8) = Inr (2, [])"
      by (simp add: choose_batch_size_def)
    show "assemble ?w ?fns 2 = ([OpenFile ''images/cat.jpg'', OpenFile ''images/dog.jpg''],
        Inr (?fns, [[3], [1, 2]]))"
      by (rule ex_assemble)
  qed
  then have 2: "stdout (main ?fl ?w) = [''    0.9 (281) = TABBY'', ''    0.9 (281) = TABBY'', ''PASS'']"
    by (simp add: ex_server_def ex_postprocess)
  from 1 2 show ?thesis by simp
qed

end
